theory Spec2Isabelle
  imports Main
begin

section \<open>Python strings\<close>

text \<open>
  A Python \<^verbatim>\<open>str\<close> is a sequence of Unicode code points and \<^verbatim>\<open>len\<close> counts code
  points, so a string is modelled as a list of code points. Literals of the source are
  written \<open>u ''...''\<close>; a backslash or a non-ASCII character is spliced in by its code
  point (\<open>[92]\<close> is the backslash, \<open>[8226]\<close> the bullet).
\<close>

type_synonym pystr = "nat list"

definition u :: "string \<Rightarrow> pystr" where
  "u s = map of_char s"

text \<open>The characters \<^verbatim>\<open>str.strip()\<close> removes: those for which \<^verbatim>\<open>str.isspace\<close> holds.\<close>

definition isspace :: "nat \<Rightarrow> bool" where
  "isspace c \<longleftrightarrow>
     c \<in> set [9, 10, 11, 12, 13, 28, 29, 30, 31, 32, 133, 160, 5760,
                8232, 8233, 8239, 8287, 12288]
     \<or> (8192 \<le> c \<and> c \<le> 8202)"

definition lstrip :: "pystr \<Rightarrow> pystr" where
  "lstrip s = dropWhile isspace s"

definition rstrip :: "pystr \<Rightarrow> pystr" where
  "rstrip s = rev (dropWhile isspace (rev s))"

definition strip :: "pystr \<Rightarrow> pystr" where
  "strip s = rstrip (lstrip s)"

text \<open>\<^verbatim>\<open>s.lstrip(chars)\<close>: drop leading characters that belong to \<open>chars\<close>.\<close>

definition lstrip_chars :: "pystr \<Rightarrow> pystr \<Rightarrow> pystr" where
  "lstrip_chars chars s = dropWhile (\<lambda>c. c \<in> set chars) s"

definition startswith :: "pystr \<Rightarrow> pystr \<Rightarrow> bool" where
  "startswith s p \<longleftrightarrow> take (length p) s = p"

text \<open>\<^verbatim>\<open>p in s\<close>: some suffix of \<open>s\<close> starts with \<open>p\<close>.\<close>

fun contains :: "pystr \<Rightarrow> pystr \<Rightarrow> bool" where
  "contains [] p = (p = [])"
| "contains (c # cs) p = (startswith (c # cs) p \<or> contains cs p)"

text \<open>
  \<^verbatim>\<open>s.replace(old, new)\<close> replaces every occurrence of \<open>old\<close>, scanning from the left
  and resuming after each replaced occurrence. With an empty \<open>old\<close> Python inserts
  \<open>new\<close> before every character and at the end.
\<close>

function replace :: "pystr \<Rightarrow> pystr \<Rightarrow> pystr \<Rightarrow> pystr" where
  "replace old new s =
     (if old = [] then new @ concat (map (\<lambda>c. c # new) s)
      else if s = [] then []
      else if startswith s old then new @ replace old new (drop (length old) s)
      else hd s # replace old new (tl s))"
  by pat_completeness auto
termination
  by (relation "measure (\<lambda>(old, new, s). length s)") auto

declare replace.simps [simp del]

text \<open>\<^verbatim>\<open>s.split('\n')\<close>: split at every line feed; the result is never empty.\<close>

fun split_lines :: "pystr \<Rightarrow> pystr list" where
  "split_lines [] = [[]]"
| "split_lines (c # cs) =
     (if c = 10 then [] # split_lines cs
      else (case split_lines cs of
              [] \<Rightarrow> [[c]]
            | l # ls \<Rightarrow> (c # l) # ls))"

text \<open>\<^verbatim>\<open>sep.join(xs)\<close>.\<close>

fun join :: "pystr \<Rightarrow> pystr list \<Rightarrow> pystr" where
  "join sep [] = []"
| "join sep [x] = x"
| "join sep (x # y # ys) = x @ sep @ join sep (y # ys)"

text \<open>\<^verbatim>\<open>str(n)\<close> for an integer: its decimal digits, with a minus sign when negative.\<close>

function str_nat :: "nat \<Rightarrow> pystr" where
  "str_nat n = (if n < 10 then [48 + n] else str_nat (n div 10) @ [48 + n mod 10])"
  by pat_completeness auto
termination
  by (relation "measure (\<lambda>n. n)") auto

declare str_nat.simps [simp del]

definition str_int :: "int \<Rightarrow> pystr" where
  "str_int i = (if i < 0 then 45 # str_nat (nat (- i)) else str_nat (nat i))"

text \<open>\<^verbatim>\<open>os.path.join(a, b)\<close> on a POSIX system.\<close>

definition os_path_join :: "pystr \<Rightarrow> pystr \<Rightarrow> pystr" where
  "os_path_join a b =
     (if startswith b (u ''/'') then b
      else if a = [] \<or> last a = 47 then a @ b
      else a @ u ''/'' @ b)"

section \<open>Exceptions\<close>

text \<open>
  Every exception the code can meet is a value; each constructor carries what
  \<^verbatim>\<open>str(e)\<close> returns. \<open>ServiceError\<close> stands for whatever a remote collaborator
  (the hosted model, the embedding service, the vector index) raises.
\<close>

datatype error =
    ValueError pystr
  | TypeError pystr
  | AttributeError pystr
  | JSONDecodeError pystr
  | OSError pystr
  | ServiceError pystr

fun str_error :: "error \<Rightarrow> pystr" where
  "str_error (ValueError m) = m"
| "str_error (TypeError m) = m"
| "str_error (AttributeError m) = m"
| "str_error (JSONDecodeError m) = m"
| "str_error (OSError m) = m"
| "str_error (ServiceError m) = m"

text \<open>Sequencing of a computation that may raise with its continuation.\<close>

definition and_then :: "error + 'a \<Rightarrow> ('a \<Rightarrow> error + 'b) \<Rightarrow> error + 'b" where
  "and_then m f = (case m of Inl e \<Rightarrow> Inl e | Inr x \<Rightarrow> f x)"

section \<open>Values parsed from JSON\<close>

datatype pyfloat = Finite int int | PosInf | NegInf | NaN

datatype json =
    JNull
  | JBool bool
  | JInt int
  | JFloat pyfloat
  | JStr pystr
  | JArr "json list"
  | JObj "(pystr \<times> json) list"

fun type_name :: "json \<Rightarrow> pystr" where
  "type_name JNull = u ''NoneType''"
| "type_name (JBool b) = u ''bool''"
| "type_name (JInt i) = u ''int''"
| "type_name (JFloat f) = u ''float''"
| "type_name (JStr s) = u ''str''"
| "type_name (JArr xs) = u ''list''"
| "type_name (JObj kvs) = u ''dict''"

text \<open>\<^verbatim>\<open>d.get(key, default)\<close>: only a dict has the method.\<close>

fun py_get :: "json \<Rightarrow> pystr \<Rightarrow> json \<Rightarrow> error + json" where
  "py_get (JObj kvs) key dflt =
     Inr (case map_of kvs key of None \<Rightarrow> dflt | Some v \<Rightarrow> v)"
| "py_get v key dflt =
     Inl (AttributeError
           ([39] @ type_name v @ [39] @ u '' object has no attribute '' @ [39] @ u ''get'' @ [39]))"

text \<open>\<^verbatim>\<open>len(v)\<close>: defined on strings, lists and dicts.\<close>

fun py_len :: "json \<Rightarrow> error + nat" where
  "py_len (JStr s) = Inr (length s)"
| "py_len (JArr xs) = Inr (length xs)"
| "py_len (JObj kvs) = Inr (length kvs)"
| "py_len v =
     Inl (TypeError (u ''object of type '' @ [39] @ type_name v @ [39] @ u '' has no len()''))"

text \<open>Truth value of a parsed value, as \<^verbatim>\<open>if v:\<close> tests it.\<close>

fun truthy :: "json \<Rightarrow> bool" where
  "truthy JNull = False"
| "truthy (JBool b) = b"
| "truthy (JInt i) = (i \<noteq> 0)"
| "truthy (JFloat (Finite m e)) = (m \<noteq> 0)"
| "truthy (JFloat f) = True"
| "truthy (JStr s) = (s \<noteq> [])"
| "truthy (JArr xs) = (xs \<noteq> [])"
| "truthy (JObj kvs) = (kvs \<noteq> [])"

text \<open>\<^verbatim>\<open>len(d.get(key, []))\<close>, as the progress reports of the agents evaluate it.\<close>

definition len_of_get :: "json \<Rightarrow> pystr \<Rightarrow> error + nat" where
  "len_of_get d key = and_then (py_get d key (JArr [])) py_len"

section \<open>The prompts of the four agents\<close>

definition job_prompt :: "pystr \<Rightarrow> pystr" where
  \<open>job_prompt job_description =
     u ''You are a job requirement analyzer. Analyze this job description.\<newline>'' @
     u ''\<newline>'' @
     u ''Job Description:\<newline>'' @
     job_description @
     u ''\<newline>'' @
     u ''\<newline>'' @
     u ''Extract and return the following in JSON format:\<newline>'' @
     u ''{\<newline>'' @
     u ''    "required_skills": ["list", "of", "skills"],\<newline>'' @
     u ''    "nice_to_have_skills": ["optional", "skills"],\<newline>'' @
     u ''    "education_required": "degrees or certifications"\<newline>'' @
     u ''    "experience_level": "e.g., 2-3 years",\<newline>'' @
     u ''    "key_responsibilities": ["main", "duties"],\<newline>'' @
     u ''    "important_keywords": ["keywords", "for", "ATS"],\<newline>'' @
     u ''    "company_culture": "brief description of culture if mentioned"\<newline>'' @
     u ''}\<newline>'' @
     u ''\<newline>'' @
     u ''Be thorough. Return ONLY the JSON, no other text.''\<close>

definition resume_prompt :: "pystr \<Rightarrow> pystr" where
  \<open>resume_prompt resume_text =
     u ''You are a resume analyzer. Extract ALL information from this resume.\<newline>'' @
     u ''\<newline>'' @
     u ''Resume:\<newline>'' @
     resume_text @
     u ''\<newline>'' @
     u ''\<newline>'' @
     u ''Extract and return the following in JSON format:\<newline>'' @
     u ''{\<newline>'' @
     u ''    "name": "Full name if present",\<newline>'' @
     u ''    "contact_info": {\<newline>'' @
     u ''        "email": "email if present",\<newline>'' @
     u ''        "phone": "phone if present",\<newline>'' @
     u ''        "location": "location if present",\<newline>'' @
     u ''        "linkedin": "LinkedIn URL if present",\<newline>'' @
     u ''        "github": "GitHub profile URL if present",\<newline>'' @
     u ''        "portfolio": "Portfolio or personal website URL if present"\<newline>'' @
     u ''    },\<newline>'' @
     u ''    "summary": "Professional summary/objective if present",\<newline>'' @
     u ''    "skills": ["list", "all", "skills", "mentioned"],\<newline>'' @
     u ''    "technical_skills": ["specific", "technical", "skills"],\<newline>'' @
     u ''    "soft_skills": ["communication", "leadership", "etc"],\<newline>'' @
     u ''    "experience": [\<newline>'' @
     u ''        {\<newline>'' @
     u ''            "title": "Job title",\<newline>'' @
     u ''            "company": "Company name",\<newline>'' @
     u ''            "duration": "Time period",\<newline>'' @
     u ''            "responsibilities": ["what", "they", "did"]\<newline>'' @
     u ''        }\<newline>'' @
     u ''    ],\<newline>'' @
     u ''    "education": [\<newline>'' @
     u ''        {\<newline>'' @
     u ''            "degree": "Degree name",\<newline>'' @
     u ''            "institution": "School name",\<newline>'' @
     u ''            "year": "Graduation year",\<newline>'' @
     u ''            "details": "Relevant coursework, GPA, etc if mentioned"\<newline>'' @
     u ''        }\<newline>'' @
     u ''    ],\<newline>'' @
     u ''    "projects": ["List any projects mentioned"],\<newline>'' @
     u ''    "achievements": ["Notable achievements or awards"],\<newline>'' @
     u ''    "certifications": ["Any certifications"],\<newline>'' @
     u ''    "extracurricular_activities": ["Clubs, volunteering, leadership, sports, hobbies if mentioned"]\<newline>'' @
     u ''}\<newline>'' @
     u ''\<newline>'' @
     u ''IMPORTANT: \<newline>'' @
     u ''- Extract GitHub link if present (github.com/username)\<newline>'' @
     u ''- Extract portfolio/website if present\<newline>'' @
     u ''- Extract ALL extracurricular activities mentioned\<newline>'' @
     u ''- If any field doesn't exist, use null or empty array\<newline>'' @
     u ''\<newline>'' @
     u ''Be thorough. Return ONLY the JSON, no other text.''\<close>

definition strategy_prompt :: "(json \<Rightarrow> pystr) \<Rightarrow> json \<Rightarrow> json \<Rightarrow> pystr" where
  \<open>strategy_prompt dumps job_analysis resume_data =
     u ''You are an expert resume strategist. Your job is to create a detailed strategy for tailoring a resume to maximize the match with a job posting.\<newline>'' @
     u ''\<newline>'' @
     u ''JOB REQUIREMENTS:\<newline>'' @
     dumps job_analysis @
     u ''\<newline>'' @
     u ''\<newline>'' @
     u ''CANDIDATE'S BACKGROUND:\<newline>'' @
     dumps resume_data @
     u ''\<newline>'' @
     u ''\<newline>'' @
     u ''Analyze the match and create a strategic plan in JSON format:\<newline>'' @
     u ''{\<newline>'' @
     u ''    "overall_match_score": "Rate 0-100 how well candidate matches",\<newline>'' @
     u ''    "match_summary": "Brief summary of the match quality",\<newline>'' @
     u ''    \<newline>'' @
     u ''    "strong_matches": [\<newline>'' @
     u ''        {\<newline>'' @
     u ''            "skill_or_experience": "What matches strongly",\<newline>'' @
     u ''            "evidence": "Where in resume this is shown",\<newline>'' @
     u ''            "strategy": "How to emphasize this"\<newline>'' @
     u ''        }\<newline>'' @
     u ''    ],\<newline>'' @
     u ''    \<newline>'' @
     u ''    "partial_matches": [\<newline>'' @
     u ''        {\<newline>'' @
     u ''            "requirement": "What partially matches",\<newline>'' @
     u ''            "candidate_has": "What candidate actually has",\<newline>'' @
     u ''            "strategy": "How to position this positively"\<newline>'' @
     u ''        }\<newline>'' @
     u ''    ],\<newline>'' @
     u ''    \<newline>'' @
     u ''    "gaps": [\<newline>'' @
     u ''        {\<newline>'' @
     u ''            "missing": "What's required but missing",\<newline>'' @
     u ''            "severity": "critical/moderate/minor",\<newline>'' @
     u ''            "mitigation": "How to address or downplay this gap"\<newline>'' @
     u ''        }\<newline>'' @
     u ''    ],\<newline>'' @
     u ''    \<newline>'' @
     u ''    "skills_to_emphasize": [\<newline>'' @
     u ''        {\<newline>'' @
     u ''            "skill": "Skill name",\<newline>'' @
     u ''            "reason": "Why emphasize",\<newline>'' @
     u ''            "how": "Where and how to highlight"\<newline>'' @
     u ''        }\<newline>'' @
     u ''    ],\<newline>'' @
     u ''    \<newline>'' @
     u ''    "experience_to_highlight": [\<newline>'' @
     u ''        {\<newline>'' @
     u ''            "experience": "Which job/project",\<newline>'' @
     u ''            "why": "Why relevant to this position",\<newline>'' @
     u ''            "key_achievements": ["What to emphasize from this role"]\<newline>'' @
     u ''        }\<newline>'' @
     u ''    ],\<newline>'' @
     u ''    \<newline>'' @
     u ''    "keywords_to_add": ["ATS-friendly keywords to incorporate"],\<newline>'' @
     u ''    \<newline>'' @
     u ''    "structural_recommendations": {\<newline>'' @
     u ''        "summary_focus": "What to emphasize in summary",\<newline>'' @
     u ''        "skills_section": "How to organize skills",\<newline>'' @
     u ''        "experience_order": "Any reordering needed",\<newline>'' @
     u ''        "what_to_deemphasize": ["What to minimize or remove"]\<newline>'' @
     u ''    },\<newline>'' @
     u ''    \<newline>'' @
     u ''    "enhanced_elements": {\<newline>'' @
     u ''        "github_strategy": "How to leverage GitHub profile if present",\<newline>'' @
     u ''        "portfolio_strategy": "How to leverage portfolio if present",\<newline>'' @
     u ''        "extracurriculars_strategy": "Which activities to highlight and why"\<newline>'' @
     u ''    },\<newline>'' @
     u ''    \<newline>'' @
     u ''    "differentiation_strategy": "How to stand out from other candidates",\<newline>'' @
     u ''    \<newline>'' @
     u ''    "specific_actions": [\<newline>'' @
     u ''        "Concrete action item 1",\<newline>'' @
     u ''        "Concrete action item 2"\<newline>'' @
     u ''    ]\<newline>'' @
     u ''}\<newline>'' @
     u ''\<newline>'' @
     u ''IMPORTANT: \<newline>'' @
     u ''- Be specific and actionable\<newline>'' @
     u ''- Consider ATS optimization\<newline>'' @
     u ''- Identify transferable skills even if not exact match\<newline>'' @
     u ''- Leverage ALL enhanced fields (GitHub, portfolio, extracurriculars)\<newline>'' @
     u ''- Think strategically about positioning\<newline>'' @
     u ''\<newline>'' @
     u ''Return ONLY the JSON, no other text.''\<close>

definition generator_prompt :: "(json \<Rightarrow> pystr) \<Rightarrow> json \<Rightarrow> json \<Rightarrow> json \<Rightarrow> pystr" where
  \<open>generator_prompt dumps resume_data strategy job_analysis =
     u ''You are an expert resume writer. Generate tailored resume CONTENT in LaTeX format.\<newline>'' @
     u ''\<newline>'' @
     u ''ORIGINAL RESUME DATA:\<newline>'' @
     dumps resume_data @
     u ''\<newline>'' @
     u ''\<newline>'' @
     u ''JOB REQUIREMENTS:\<newline>'' @
     dumps job_analysis @
     u ''\<newline>'' @
     u ''\<newline>'' @
     u ''STRATEGIC PLAN (MUST FOLLOW):\<newline>'' @
     dumps strategy @
     u ''\<newline>'' @
     u ''\<newline>'' @
     u ''Generate ONLY the resume content sections in LaTeX format. Use these LaTeX commands:\<newline>'' @
     u ''\<newline>'' @
     u ''HEADER FORMAT:\<newline>'' @
     [92] @ u ''begin{center}\<newline>'' @
     u ''    {'' @ [92] @ u ''Huge '' @ [92] @ u ''scshape [NAME]} '' @ [92] @ [92] @ u '' '' @ [92] @ u ''vspace{1pt}\<newline>'' @
     u ''    '' @ [92] @ u ''small '' @ [92] @ u ''raisebox{-0.1'' @ [92] @ u ''height}'' @ [92] @ u ''faPhone'' @ [92] @ u '' [PHONE] ~ \<newline>'' @
     u ''    '' @ [92] @ u ''href{mailto:[EMAIL]}{'' @ [92] @ u ''raisebox{-0.2'' @ [92] @ u ''height}'' @ [92] @ u ''faEnvelope'' @ [92] @ u '' [EMAIL]} ~ \<newline>'' @
     u ''    '' @ [92] @ u ''href{[LINKEDIN]}{'' @ [92] @ u ''raisebox{-0.2'' @ [92] @ u ''height}'' @ [92] @ u ''faLinkedin'' @ [92] @ u '' LinkedIn} ~\<newline>'' @
     u ''    '' @ [92] @ u ''href{[GITHUB]}{'' @ [92] @ u ''raisebox{-0.2'' @ [92] @ u ''height}'' @ [92] @ u ''faGithub'' @ [92] @ u '' GitHub}\<newline>'' @
     u ''    '' @ [92] @ u ''vspace{-8pt}\<newline>'' @
     [92] @ u ''end{center}\<newline>'' @
     u ''\<newline>'' @
     u ''SUMMARY SECTION:\<newline>'' @
     [92] @ u ''section{Summary}\<newline>'' @
     u ''[Write strategic summary emphasizing what strategy recommends]\<newline>'' @
     u ''\<newline>'' @
     u ''EDUCATION SECTION:\<newline>'' @
     [92] @ u ''section{Education}\<newline>'' @
     u ''  '' @ [92] @ u ''resumeSubHeadingListStart\<newline>'' @
     u ''    '' @ [92] @ u ''resumeSubheading\<newline>'' @
     u ''      {[Degree]}{[Location]}\<newline>'' @
     u ''      {[Program Details]}{[Dates]}\<newline>'' @
     u ''  '' @ [92] @ u ''resumeSubHeadingListEnd\<newline>'' @
     [92] @ u ''vspace{-12pt}\<newline>'' @
     u ''\<newline>'' @
     u ''EXPERIENCE SECTION:\<newline>'' @
     [92] @ u ''section{Professional Experience}\<newline>'' @
     u ''  '' @ [92] @ u ''resumeSubHeadingListStart\<newline>'' @
     u ''    '' @ [92] @ u ''resumeSubheading\<newline>'' @
     u ''      {[Job Title]}{[Dates]}\<newline>'' @
     u ''      {[Company]}{[Location]}\<newline>'' @
     u ''      '' @ [92] @ u ''resumeItemListStart\<newline>'' @
     u ''        '' @ [92] @ u ''resumeItem{[Bullet point emphasizing relevant skills]}\<newline>'' @
     u ''        '' @ [92] @ u ''resumeItem{[Bullet point with keywords from strategy]}\<newline>'' @
     u ''      '' @ [92] @ u ''resumeItemListEnd\<newline>'' @
     u ''  '' @ [92] @ u ''resumeSubHeadingListEnd\<newline>'' @
     [92] @ u ''vspace{-16pt}\<newline>'' @
     u ''\<newline>'' @
     u ''PROJECTS SECTION:\<newline>'' @
     [92] @ u ''section{Key Projects}\<newline>'' @
     u ''    '' @ [92] @ u ''vspace{-5pt}\<newline>'' @
     u ''    '' @ [92] @ u ''resumeSubHeadingListStart\<newline>'' @
     u ''      '' @ [92] @ u ''resumeProjectHeading\<newline>'' @
     u ''          {'' @ [92] @ u ''textbf{[Project Name]} $|$ '' @ [92] @ u ''emph{[Technologies]}},{[Year]}\<newline>'' @
     u ''          '' @ [92] @ u ''resumeItemListStart\<newline>'' @
     u ''            '' @ [92] @ u ''resumeItem{[Achievement]}\<newline>'' @
     u ''          '' @ [92] @ u ''resumeItemListEnd\<newline>'' @
     u ''          '' @ [92] @ u ''vspace{-13pt}\<newline>'' @
     u ''    '' @ [92] @ u ''resumeSubHeadingListEnd\<newline>'' @
     u ''\<newline>'' @
     u ''SKILLS SECTION:\<newline>'' @
     [92] @ u ''section{Technical Skills}\<newline>'' @
     u '' '' @ [92] @ u ''begin{itemize}[leftmargin=0.15in, label={}]\<newline>'' @
     u ''    '' @ [92] @ u ''small{'' @ [92] @ u ''item{\<newline>'' @
     u ''     '' @ [92] @ u ''textbf{[Category]:} [Skills list] '' @ [92] @ [92] @ u ''\<newline>'' @
     u ''    }}\<newline>'' @
     u '' '' @ [92] @ u ''end{itemize}\<newline>'' @
     [92] @ u ''vspace{-16pt}\<newline>'' @
     u ''\<newline>'' @
     u ''CRITICAL INSTRUCTIONS:\<newline>'' @
     u ''1. FOLLOW THE STRATEGY EXACTLY - emphasize what it says to emphasize\<newline>'' @
     u ''2. INCORPORATE all keywords from strategy naturally\<newline>'' @
     u ''3. If GitHub/Portfolio present in contact_info, include them in header\<newline>'' @
     u ''4. If extracurriculars exist and strategy recommends, add them as section\<newline>'' @
     u ''5. ORDER sections per strategy recommendations\<newline>'' @
     u ''6. Make summary compelling and targeted to the job\<newline>'' @
     u ''7. Quantify achievements where possible\<newline>'' @
     u ''8. Use strong action verbs\<newline>'' @
     u ''9. Ensure ATS-friendly (keywords, formatting)\<newline>'' @
     u ''10. Keep LaTeX syntax PERFECT - no syntax errors\<newline>'' @
     u ''\<newline>'' @
     u ''Generate the COMPLETE resume content starting with the header and ending with the last section.\<newline>'' @
     u ''Do NOT include '' @ [92] @ u ''documentclass or '' @ [92] @ u ''begin{document} - only the content sections.\<newline>''\<close>

section \<open>The analysis and generation agents\<close>

text \<open>
  The world the agents act on: the state of the hosted model (whatever makes two calls
  with one prompt answer differently), the prompts sent to it so far, oldest first, and
  the files on disk.
\<close>

record 'm world =
  model_state :: 'm
  calls :: "pystr list"
  files :: "pystr \<rightharpoonup> pystr"

text \<open>
  What the agents are given and do not define themselves: the hosted model
  (\<^verbatim>\<open>self.model.generate_content(prompt)\<close> followed by \<^verbatim>\<open>response.text\<close>, either of which
  may raise), the JSON library, the template read from \<^verbatim>\<open>resume_template.tex\<close> when the
  agent is constructed, the directory of the module, which paths can be opened for
  writing, and whether writing a text to an opened file raises (\<open>Some n\<close>: it raises
  after \<open>n\<close> characters have reached the file).
\<close>

record 'm agent =
  generate_content :: "'m \<Rightarrow> pystr \<Rightarrow> (error + pystr) \<times> 'm"
  json_loads :: "pystr \<Rightarrow> error + json"
  json_dumps :: "json \<Rightarrow> pystr"
  latex_template :: pystr
  module_dir :: pystr
  can_open :: "pystr \<Rightarrow> bool"
  write_fails :: "pystr \<Rightarrow> pystr \<Rightarrow> nat option"

definition call_model ::
  "'m agent \<Rightarrow> 'm world \<Rightarrow> pystr \<Rightarrow> (error + pystr) \<times> 'm world" where
  "call_model ag w prompt =
     (case generate_content ag (model_state w) prompt of
        (r, m') \<Rightarrow> (r, w\<lparr>model_state := m', calls := calls w @ [prompt]\<rparr>))"

text \<open>\<^verbatim>\<open>response.text.replace('```json', '').replace('```', '').strip()\<close>\<close>

definition strip_json_fences :: "pystr \<Rightarrow> pystr" where
  "strip_json_fences text = strip (replace (u ''```'') [] (replace (u ''```json'') [] text))"

text \<open>
  The progress reports printed after a successful parse. Their text is not modelled;
  what they evaluate is, since \<^verbatim>\<open>.get\<close> on a value that is not a dict and \<^verbatim>\<open>len\<close> of a
  value without a length raise inside the \<^verbatim>\<open>try\<close> block.
\<close>

definition job_report :: "json \<Rightarrow> error + unit" where
  "job_report job_analysis =
     and_then (len_of_get job_analysis (u ''required_skills'')) (\<lambda>_.
     and_then (py_get job_analysis (u ''experience_level'') (JStr (u ''Not specified''))) (\<lambda>_.
     and_then (len_of_get job_analysis (u ''key_responsibilities'')) (\<lambda>_.
     Inr ())))"

definition resume_report :: "json \<Rightarrow> error + unit" where
  "resume_report resume_data =
     and_then (py_get resume_data (u ''name'') (JStr (u ''Not found''))) (\<lambda>_.
     and_then (len_of_get resume_data (u ''skills'')) (\<lambda>_.
     and_then (len_of_get resume_data (u ''experience'')) (\<lambda>_.
     and_then (len_of_get resume_data (u ''education'')) (\<lambda>_.
     and_then (len_of_get resume_data (u ''projects'')) (\<lambda>_.
     and_then (py_get resume_data (u ''contact_info'') (JObj [])) (\<lambda>contact.
     and_then (py_get contact (u ''github'') JNull) (\<lambda>_.
     and_then (py_get contact (u ''portfolio'') JNull) (\<lambda>_.
     and_then (py_get resume_data (u ''extracurricular_activities'') (JArr []))
       (\<lambda>extracurriculars.
     and_then (if truthy extracurriculars then py_len extracurriculars else Inr 0) (\<lambda>_.
     Inr ()))))))))))"

definition strategy_report :: "json \<Rightarrow> error + unit" where
  "strategy_report strategy =
     and_then (py_get strategy (u ''overall_match_score'') (JStr (u ''N/A''))) (\<lambda>_.
     and_then (len_of_get strategy (u ''strong_matches'')) (\<lambda>_.
     and_then (len_of_get strategy (u ''partial_matches'')) (\<lambda>_.
     and_then (len_of_get strategy (u ''gaps'')) (\<lambda>_.
     and_then (len_of_get strategy (u ''skills_to_emphasize'')) (\<lambda>_.
     and_then (len_of_get strategy (u ''keywords_to_add'')) (\<lambda>_.
     Inr ()))))))"

text \<open>
  The three extraction stages share one shape: one model call, fences stripped, strict
  parse, report; any exception is printed and re-raised.
\<close>

definition parse_stage ::
  "'m agent \<Rightarrow> 'm world \<Rightarrow> pystr \<Rightarrow> (json \<Rightarrow> error + unit) \<Rightarrow> (error + json) \<times> 'm world" where
  "parse_stage ag w prompt report =
     (case call_model ag w prompt of
        (Inl e, w') \<Rightarrow> (Inl e, w')
      | (Inr text, w') \<Rightarrow>
          (case json_loads ag (strip_json_fences text) of
             Inl e \<Rightarrow> (Inl e, w')
           | Inr parsed \<Rightarrow>
               (case report parsed of
                  Inl e \<Rightarrow> (Inl e, w')
                | Inr _ \<Rightarrow> (Inr parsed, w'))))"

definition analyze_job_description ::
  "'m agent \<Rightarrow> 'm world \<Rightarrow> pystr \<Rightarrow> (error + json) \<times> 'm world" where
  "analyze_job_description ag w job_description =
     parse_stage ag w (job_prompt job_description) job_report"

definition analyze_resume ::
  "'m agent \<Rightarrow> 'm world \<Rightarrow> pystr \<Rightarrow> (error + json) \<times> 'm world" where
  "analyze_resume ag w resume_text =
     parse_stage ag w (resume_prompt resume_text) resume_report"

definition create_matching_strategy ::
  "'m agent \<Rightarrow> 'm world \<Rightarrow> json \<Rightarrow> json \<Rightarrow> (error + json) \<times> 'm world" where
  "create_matching_strategy ag w job_analysis resume_data =
     parse_stage ag w (strategy_prompt (json_dumps ag) job_analysis resume_data)
       strategy_report"

definition PLACEHOLDER :: pystr where
  "PLACEHOLDER = u ''{{CONTENT}}''"

text \<open>\<^verbatim>\<open>latex_content.replace('```latex', '').replace('```', '').strip()\<close>\<close>

definition strip_latex_fences :: "pystr \<Rightarrow> pystr" where
  "strip_latex_fences text = strip (replace (u ''```'') [] (replace (u ''```latex'') [] text))"

definition generate_tailored_resume ::
  "'m agent \<Rightarrow> 'm world \<Rightarrow> json \<Rightarrow> json \<Rightarrow> json \<Rightarrow> (error + pystr) \<times> 'm world" where
  "generate_tailored_resume ag w resume_data strategy job_analysis =
     (case call_model ag w (generator_prompt (json_dumps ag) resume_data strategy job_analysis) of
        (Inl e, w') \<Rightarrow> (Inl e, w')
      | (Inr text, w') \<Rightarrow>
          (let latex_content = strip_latex_fences text;
               final_resume = replace PLACEHOLDER latex_content (latex_template ag)
           in (Inr final_resume, w')))"

text \<open>
  \<^verbatim>\<open>with open(path, 'w') as f: f.write(text)\<close>. When \<^verbatim>\<open>open\<close> raises, the files are
  untouched. Once it has succeeded the file exists and is empty, so a write that raises
  leaves the file with what had been written, not with its old content.
\<close>

definition write_file ::
  "'m agent \<Rightarrow> 'm world \<Rightarrow> pystr \<Rightarrow> pystr \<Rightarrow> (error + unit) \<times> 'm world" where
  "write_file ag w path text =
     (if can_open ag path then
        (case write_fails ag path text of
           None \<Rightarrow> (Inr (), w\<lparr>files := (files w)(path \<mapsto> text)\<rparr>)
         | Some n \<Rightarrow> (Inl (OSError path), w\<lparr>files := (files w)(path \<mapsto> take n text)\<rparr>))
      else (Inl (OSError path), w))"

text \<open>The dict \<^verbatim>\<open>run_complete_analysis\<close> returns, with its three keys.\<close>

record analysis =
  job_analysis :: json
  resume_data :: json
  strategy :: json

definition analysis_dict :: "analysis \<Rightarrow> json" where
  "analysis_dict a =
     JObj [(u ''job_analysis'', job_analysis a),
           (u ''resume_data'', resume_data a),
           (u ''strategy'', strategy a)]"

definition run_complete_analysis ::
  "'m agent \<Rightarrow> 'm world \<Rightarrow> pystr \<Rightarrow> pystr \<Rightarrow> (error + analysis) \<times> 'm world" where
  "run_complete_analysis ag w job_description resume_text =
     (case analyze_job_description ag w job_description of
        (Inl e, w1) \<Rightarrow> (Inl e, w1)
      | (Inr ja, w1) \<Rightarrow>
          (case analyze_resume ag w1 resume_text of
             (Inl e, w2) \<Rightarrow> (Inl e, w2)
           | (Inr rd, w2) \<Rightarrow>
               (case create_matching_strategy ag w2 ja rd of
                  (Inl e, w3) \<Rightarrow> (Inl e, w3)
                | (Inr st, w3) \<Rightarrow>
                    (Inr \<lparr>job_analysis = ja, resume_data = rd, strategy = st\<rparr>, w3))))"

definition run_complete_pipeline ::
  "'m agent \<Rightarrow> 'm world \<Rightarrow> pystr \<Rightarrow> pystr \<Rightarrow> pystr \<Rightarrow> (error + pystr) \<times> 'm world" where
  "run_complete_pipeline ag w job_description resume_text output_filename =
     (case run_complete_analysis ag w job_description resume_text of
        (Inl e, w1) \<Rightarrow> (Inl e, w1)
      | (Inr a, w1) \<Rightarrow>
          (case generate_tailored_resume ag w1 (resume_data a) (strategy a) (job_analysis a) of
             (Inl e, w2) \<Rightarrow> (Inl e, w2)
           | (Inr tailored_resume, w2) \<Rightarrow>
               (let output_path = os_path_join (module_dir ag) output_filename in
                case write_file ag w2 output_path tailored_resume of
                  (Inl e, w3) \<Rightarrow> (Inl e, w3)
                | (Inr _, w3) \<Rightarrow>
                    (case py_get (strategy a) (u ''overall_match_score'') (JStr (u ''N/A'')) of
                       Inl e \<Rightarrow> (Inl e, w3)
                     | Inr _ \<Rightarrow>
                         (let analysis_file =
                                replace (u ''.tex'') (u ''_analysis.json'') output_filename
                          in
                          case write_file ag w3 analysis_file
                                 (json_dumps ag (analysis_dict a)) of
                            (Inl e, w4) \<Rightarrow> (Inl e, w4)
                          | (Inr _, w4) \<Rightarrow> (Inr output_path, w4))))))"

section \<open>The retrieval engine\<close>

text \<open>A \<^verbatim>\<open>Document\<close>: its text and its metadata dict.\<close>

record document =
  page_content :: pystr
  metadata :: "(pystr \<times> json) list"

text \<open>
  The calls the engine makes to its collaborators, recorded in the order they are made
  with the arguments that decide them.
\<close>

datatype event =
    SplitDocuments "document list"
  | FromDocuments "document list"
  | SaveLocal pystr
  | PathExists pystr
  | LoadLocal pystr
  | SimilaritySearch pystr nat
  | AddDocuments "document list"
  | RetrievalQA pystr pystr
  | GenerateContent pystr

text \<open>
  The engine: \<^verbatim>\<open>self.vector_store\<close> (\<open>None\<close> until an index is built or loaded),
  everything outside the process that its collaborators read and change (the disk, the
  remote services), and the trace of calls.
\<close>

record ('vs, 'w) engine =
  vector_store :: "'vs option"
  outside :: 'w
  trace :: "event list"

text \<open>
  The collaborators, none of which is defined in the repository: the text splitter, the
  FAISS index (\<^verbatim>\<open>from_documents\<close>, \<^verbatim>\<open>save_local\<close>, \<^verbatim>\<open>load_local\<close>,
  \<^verbatim>\<open>similarity_search\<close>, \<^verbatim>\<open>add_documents\<close>, which changes the index in place and may
  raise after changing it), \<^verbatim>\<open>os.path.exists\<close>, the \<^verbatim>\<open>RetrievalQA\<close> chain built over the
  index with a prompt template and called with a query (it answers with a text and its
  source documents), the Gemini model called with a prompt, and \<^verbatim>\<open>str.isdigit\<close> of the
  interpreter's Unicode tables.
\<close>

record ('vs, 'w) services =
  split_documents :: "document list \<Rightarrow> error + document list"
  from_documents :: "'w \<Rightarrow> document list \<Rightarrow> (error + 'vs) \<times> 'w"
  save_local :: "'w \<Rightarrow> 'vs \<Rightarrow> pystr \<Rightarrow> error option \<times> 'w"
  path_exists :: "'w \<Rightarrow> pystr \<Rightarrow> bool"
  load_local :: "'w \<Rightarrow> pystr \<Rightarrow> (error + 'vs) \<times> 'w"
  similarity_search :: "'w \<Rightarrow> 'vs \<Rightarrow> pystr \<Rightarrow> nat \<Rightarrow> (error + document list) \<times> 'w"
  add_documents :: "'w \<Rightarrow> 'vs \<Rightarrow> document list \<Rightarrow> (error option \<times> 'vs) \<times> 'w"
  retrieval_qa :: "'w \<Rightarrow> 'vs \<Rightarrow> pystr \<Rightarrow> pystr \<Rightarrow> (error + pystr \<times> document list) \<times> 'w"
  gemini_generate :: "'w \<Rightarrow> pystr \<Rightarrow> (error + pystr) \<times> 'w"
  isdigit :: "nat \<Rightarrow> bool"

definition log_call :: "event \<Rightarrow> ('vs, 'w) engine \<Rightarrow> ('vs, 'w) engine" where
  "log_call ev s = s\<lparr>trace := trace s @ [ev]\<rparr>"

definition call_split ::
  "('vs, 'w) services \<Rightarrow> ('vs, 'w) engine \<Rightarrow> document list
     \<Rightarrow> (error + document list) \<times> ('vs, 'w) engine" where
  "call_split sv s docs = (split_documents sv docs, log_call (SplitDocuments docs) s)"

definition call_from_documents ::
  "('vs, 'w) services \<Rightarrow> ('vs, 'w) engine \<Rightarrow> document list
     \<Rightarrow> (error + 'vs) \<times> ('vs, 'w) engine" where
  "call_from_documents sv s chunks =
     (case from_documents sv (outside s) chunks of
        (r, w') \<Rightarrow> (r, log_call (FromDocuments chunks) (s\<lparr>outside := w'\<rparr>)))"

definition call_save_local ::
  "('vs, 'w) services \<Rightarrow> ('vs, 'w) engine \<Rightarrow> 'vs \<Rightarrow> pystr
     \<Rightarrow> error option \<times> ('vs, 'w) engine" where
  "call_save_local sv s vs path =
     (case save_local sv (outside s) vs path of
        (r, w') \<Rightarrow> (r, log_call (SaveLocal path) (s\<lparr>outside := w'\<rparr>)))"

definition call_path_exists ::
  "('vs, 'w) services \<Rightarrow> ('vs, 'w) engine \<Rightarrow> pystr \<Rightarrow> bool \<times> ('vs, 'w) engine" where
  "call_path_exists sv s path = (path_exists sv (outside s) path, log_call (PathExists path) s)"

definition call_load_local ::
  "('vs, 'w) services \<Rightarrow> ('vs, 'w) engine \<Rightarrow> pystr
     \<Rightarrow> (error + 'vs) \<times> ('vs, 'w) engine" where
  "call_load_local sv s path =
     (case load_local sv (outside s) path of
        (r, w') \<Rightarrow> (r, log_call (LoadLocal path) (s\<lparr>outside := w'\<rparr>)))"

definition call_similarity_search ::
  "('vs, 'w) services \<Rightarrow> ('vs, 'w) engine \<Rightarrow> 'vs \<Rightarrow> pystr \<Rightarrow> nat
     \<Rightarrow> (error + document list) \<times> ('vs, 'w) engine" where
  "call_similarity_search sv s vs query k =
     (case similarity_search sv (outside s) vs query k of
        (r, w') \<Rightarrow> (r, log_call (SimilaritySearch query k) (s\<lparr>outside := w'\<rparr>)))"

text \<open>The index object is changed in place, so the engine holds the changed index.\<close>

definition call_add_documents ::
  "('vs, 'w) services \<Rightarrow> ('vs, 'w) engine \<Rightarrow> 'vs \<Rightarrow> document list
     \<Rightarrow> error option \<times> ('vs, 'w) engine" where
  "call_add_documents sv s vs chunks =
     (case add_documents sv (outside s) vs chunks of
        ((r, vs'), w') \<Rightarrow>
          (r, log_call (AddDocuments chunks) (s\<lparr>vector_store := Some vs', outside := w'\<rparr>)))"

definition call_retrieval_qa ::
  "('vs, 'w) services \<Rightarrow> ('vs, 'w) engine \<Rightarrow> 'vs \<Rightarrow> pystr \<Rightarrow> pystr
     \<Rightarrow> (error + pystr \<times> document list) \<times> ('vs, 'w) engine" where
  "call_retrieval_qa sv s vs template query =
     (case retrieval_qa sv (outside s) vs template query of
        (r, w') \<Rightarrow> (r, log_call (RetrievalQA template query) (s\<lparr>outside := w'\<rparr>)))"

definition call_generate ::
  "('vs, 'w) services \<Rightarrow> ('vs, 'w) engine \<Rightarrow> pystr
     \<Rightarrow> (error + pystr) \<times> ('vs, 'w) engine" where
  "call_generate sv s prompt =
     (case gemini_generate sv (outside s) prompt of
        (r, w') \<Rightarrow> (r, log_call (GenerateContent prompt) (s\<lparr>outside := w'\<rparr>)))"

definition VECTOR_STORE_PATH :: pystr where
  "VECTOR_STORE_PATH = u ''./vector_stores''"

definition store_path_of :: "pystr \<Rightarrow> pystr" where
  "store_path_of user_id = os_path_join VECTOR_STORE_PATH (u ''user_'' @ user_id)"

text \<open>
  \<^verbatim>\<open>job_description and len(job_description.strip()) > 50\<close>, the test that
  \<^verbatim>\<open>ingest_documents\<close> and \<^verbatim>\<open>get_suggestions\<close> both make; the job description may be
  \<open>None\<close>.
\<close>

definition has_specific_jd :: "pystr option \<Rightarrow> bool" where
  "has_specific_jd job_description =
     (case job_description of
        None \<Rightarrow> False
      | Some jd \<Rightarrow> jd \<noteq> [] \<and> 50 < length (strip jd))"

subsection \<open>Ingestion\<close>

text \<open>
  The dict \<^verbatim>\<open>ingest_documents\<close> returns: on success \<^verbatim>\<open>chunks_created\<close>,
  \<^verbatim>\<open>has_job_description\<close>, \<^verbatim>\<open>vector_store_path\<close> and \<^verbatim>\<open>message\<close>; on failure
  \<^verbatim>\<open>error\<close> and \<^verbatim>\<open>message\<close>.
\<close>

datatype ingest_result =
    IngestSuccess nat bool pystr pystr
  | IngestFailure pystr pystr

definition resume_document :: "pystr \<Rightarrow> pystr \<Rightarrow> document" where
  "resume_document resume_text user_id =
     \<lparr>page_content = resume_text,
      metadata = [(u ''source'', JStr (u ''resume'')),
                  (u ''user_id'', JStr user_id),
                  (u ''type'', JStr (u ''resume''))]\<rparr>"

definition jd_document :: "pystr \<Rightarrow> pystr \<Rightarrow> document" where
  "jd_document job_description user_id =
     \<lparr>page_content = job_description,
      metadata = [(u ''source'', JStr (u ''job_description'')),
                  (u ''user_id'', JStr user_id),
                  (u ''type'', JStr (u ''jd''))]\<rparr>"

definition ingest_message :: "bool \<Rightarrow> pystr" where
  "ingest_message has_jd =
     u ''Resume ingested successfully! '' @
     (if has_jd then u ''Job description also added.''
      else u ''Add a job description for better tailoring.'')"

text \<open>The list \<^verbatim>\<open>documents\<close>: the resume always, the job description when it is meaningful.\<close>

definition documents_for :: "pystr \<Rightarrow> pystr option \<Rightarrow> pystr \<Rightarrow> document list" where
  "documents_for resume_text job_description user_id =
     resume_document resume_text user_id #
     (case job_description of
        None \<Rightarrow> []
      | Some jd \<Rightarrow>
          if has_specific_jd job_description then [jd_document jd user_id] else [])"

definition ingest_documents_try ::
  "('vs, 'w) services \<Rightarrow> ('vs, 'w) engine \<Rightarrow> pystr \<Rightarrow> pystr option \<Rightarrow> pystr
     \<Rightarrow> (error + ingest_result) \<times> ('vs, 'w) engine" where
  "ingest_documents_try sv s resume_text job_description user_id =
     (let has_jd = has_specific_jd job_description;
          documents = documents_for resume_text job_description user_id
      in
      case call_split sv s documents of
        (Inl e, s1) \<Rightarrow> (Inl e, s1)
      | (Inr chunks, s1) \<Rightarrow>
          (case call_from_documents sv s1 chunks of
             (Inl e, s2) \<Rightarrow> (Inl e, s2)
           | (Inr vs, s2) \<Rightarrow>
               (let s3 = s2\<lparr>vector_store := Some vs\<rparr>;
                    store_path = store_path_of user_id
                in
                case call_save_local sv s3 vs store_path of
                  (Some e, s4) \<Rightarrow> (Inl e, s4)
                | (None, s4) \<Rightarrow>
                    (Inr (IngestSuccess (length chunks) has_jd store_path
                            (ingest_message has_jd)), s4))))"

definition ingest_documents ::
  "('vs, 'w) services \<Rightarrow> ('vs, 'w) engine \<Rightarrow> pystr \<Rightarrow> pystr option \<Rightarrow> pystr
     \<Rightarrow> (error + ingest_result) \<times> ('vs, 'w) engine" where
  "ingest_documents sv s resume_text job_description user_id =
     (case ingest_documents_try sv s resume_text job_description user_id of
        (Inl e, s') \<Rightarrow>
          (Inr (IngestFailure (str_error e)
                  (u ''Failed to ingest documents. Check GEMINI_API_KEY.'')), s')
      | (Inr r, s') \<Rightarrow> (Inr r, s'))"

subsection \<open>Retrieval and generation\<close>

definition retrieve_context ::
  "('vs, 'w) services \<Rightarrow> ('vs, 'w) engine \<Rightarrow> pystr \<Rightarrow> nat
     \<Rightarrow> (error + document list) \<times> ('vs, 'w) engine" where
  "retrieve_context sv s query k =
     (case vector_store s of
        None \<Rightarrow>
          (Inl (ValueError (u ''Vector store not initialized. Call ingest_documents first.'')), s)
      | Some vs \<Rightarrow> call_similarity_search sv s vs query k)"

definition prompt_template :: pystr where
  \<open>prompt_template =
     u ''You are an expert resume writer and career coach. \<newline>'' @
     u ''You help tailor resumes to match job descriptions perfectly.\<newline>'' @
     u ''\<newline>'' @
     u ''CONTEXT (Resume + Job Description):\<newline>'' @
     u ''{context}\<newline>'' @
     u ''\<newline>'' @
     u ''USER INSTRUCTION:\<newline>'' @
     u ''{instruction}\<newline>'' @
     u ''\<newline>'' @
     u ''TASK:\<newline>'' @
     u ''Based on the context above and the user's instruction, generate tailored resume content.\<newline>'' @
     u ''Focus on:\<newline>'' @
     u ''1. Matching keywords from job description\<newline>'' @
     u ''2. Quantifying achievements\<newline>'' @
     u ''3. Using action verbs\<newline>'' @
     u ''4. Highlighting relevant skills\<newline>'' @
     u ''5. Maintaining professional tone\<newline>'' @
     u ''\<newline>'' @
     u ''Generate clear, impactful bullet points or sections that align with the job requirements.\<newline>'' @
     u ''\<newline>'' @
     u ''TAILORED CONTENT:''\<close>

text \<open>
  The dict \<^verbatim>\<open>generate_tailored_content\<close> returns: on success \<^verbatim>\<open>tailored_content\<close>,
  \<^verbatim>\<open>source_documents\<close> and \<^verbatim>\<open>instruction\<close>; on failure \<^verbatim>\<open>error\<close> and
  \<^verbatim>\<open>message\<close>.
\<close>

datatype generation_result =
    GenerationSuccess pystr "pystr list" pystr
  | GenerationFailure pystr pystr

text \<open>
  The part of \<^verbatim>\<open>generate_tailored_content\<close> that runs once an index is resident: bind
  \<^verbatim>\<open>context\<close> (the override when it is truthy, the joined retrieved chunks otherwise),
  build the chain over the index and call it with the instruction as the query. The
  chain receives the index, the template and the query; \<^verbatim>\<open>context\<close> is bound and not
  read again.
\<close>

definition bind_context ::
  "('vs, 'w) services \<Rightarrow> ('vs, 'w) engine \<Rightarrow> pystr \<Rightarrow> pystr option
     \<Rightarrow> (error + pystr) \<times> ('vs, 'w) engine" where
  "bind_context sv s instruction context_override =
     (case context_override of
        Some c \<Rightarrow>
          (if c \<noteq> [] then (Inr c, s)
           else (case retrieve_context sv s instruction 5 of
                   (Inl e, s1) \<Rightarrow> (Inl e, s1)
                 | (Inr relevant_docs, s1) \<Rightarrow>
                     (Inr (join (u ''\<newline>\<newline>'') (map page_content relevant_docs)), s1)))
      | None \<Rightarrow>
          (case retrieve_context sv s instruction 5 of
             (Inl e, s1) \<Rightarrow> (Inl e, s1)
           | (Inr relevant_docs, s1) \<Rightarrow>
               (Inr (join (u ''\<newline>\<newline>'') (map page_content relevant_docs)), s1)))"

definition generate_with_index ::
  "('vs, 'w) services \<Rightarrow> ('vs, 'w) engine \<Rightarrow> pystr \<Rightarrow> pystr option
     \<Rightarrow> (error + generation_result) \<times> ('vs, 'w) engine" where
  "generate_with_index sv s instruction context_override =
     (case bind_context sv s instruction context_override of
        (Inl e, s1) \<Rightarrow> (Inl e, s1)
      | (Inr context, s1) \<Rightarrow>
          (case vector_store s1 of
             None \<Rightarrow>
               (Inl (AttributeError
                      ([39] @ u ''NoneType'' @ [39] @ u '' object has no attribute '' @
                       [39] @ u ''as_retriever'' @ [39])), s1)
           | Some vs \<Rightarrow>
               (case call_retrieval_qa sv s1 vs prompt_template instruction of
                  (Inl e, s2) \<Rightarrow> (Inl e, s2)
                | (Inr (answer, sources), s2) \<Rightarrow>
                    (Inr (GenerationSuccess answer
                            (map (\<lambda>doc. take 200 (page_content doc)) sources)
                            instruction), s2))))"

definition generate_tailored_content_try ::
  "('vs, 'w) services \<Rightarrow> ('vs, 'w) engine \<Rightarrow> pystr \<Rightarrow> pystr \<Rightarrow> pystr option
     \<Rightarrow> (error + generation_result) \<times> ('vs, 'w) engine" where
  "generate_tailored_content_try sv s instruction user_id context_override =
     (case vector_store s of
        Some vs \<Rightarrow> generate_with_index sv s instruction context_override
      | None \<Rightarrow>
          (let store_path = store_path_of user_id in
           case call_path_exists sv s store_path of
             (True, s1) \<Rightarrow>
               (case call_load_local sv s1 store_path of
                  (Inl e, s2) \<Rightarrow> (Inl e, s2)
                | (Inr vs, s2) \<Rightarrow>
                    generate_with_index sv (s2\<lparr>vector_store := Some vs\<rparr>)
                      instruction context_override)
           | (False, s1) \<Rightarrow>
               (Inr (GenerationFailure
                       (u ''Vector store not found. Please analyze documents first.'')
                       (u ''Call /api/rag/analyze first to ingest documents'')), s1)))"

definition generate_tailored_content ::
  "('vs, 'w) services \<Rightarrow> ('vs, 'w) engine \<Rightarrow> pystr \<Rightarrow> pystr \<Rightarrow> pystr option
     \<Rightarrow> (error + generation_result) \<times> ('vs, 'w) engine" where
  "generate_tailored_content sv s instruction user_id context_override =
     (case generate_tailored_content_try sv s instruction user_id context_override of
        (Inl e, s') \<Rightarrow>
          (Inr (GenerationFailure (str_error e)
                  (u ''Failed to generate tailored content'')), s')
      | (Inr r, s') \<Rightarrow> (Inr r, s'))"

subsection \<open>Learning from feedback\<close>

text \<open>
  The dict \<^verbatim>\<open>learn_from_feedback\<close> returns: \<^verbatim>\<open>success\<close> true with a \<^verbatim>\<open>message\<close>;
  \<^verbatim>\<open>success\<close> false with a \<^verbatim>\<open>message\<close> (no index loaded); \<^verbatim>\<open>success\<close> false with an
  \<^verbatim>\<open>error\<close> (an exception was caught).
\<close>

datatype learn_result =
    LearnStored pystr
  | LearnNotStored pystr
  | LearnError pystr

definition feedback_document :: "pystr \<Rightarrow> pystr \<Rightarrow> pystr \<Rightarrow> pystr \<Rightarrow> int \<Rightarrow> document" where
  "feedback_document user_id instruction generated_content feedback rating =
     \<lparr>page_content =
        u ''\<newline>'' @
        u ''INSTRUCTION: '' @ instruction @ u ''\<newline>'' @
        u ''GENERATED: '' @ generated_content @ u ''\<newline>'' @
        u ''USER FEEDBACK: '' @ feedback @ u ''\<newline>'' @
        u ''RATING: '' @ str_int rating @ u ''/5\<newline>'' @
        u ''                '',
      metadata = [(u ''type'', JStr (u ''feedback'')),
                  (u ''user_id'', JStr user_id),
                  (u ''rating'', JInt rating)]\<rparr>"

definition learn_from_feedback_try ::
  "('vs, 'w) services \<Rightarrow> ('vs, 'w) engine \<Rightarrow> pystr \<Rightarrow> pystr \<Rightarrow> pystr \<Rightarrow> pystr \<Rightarrow> int
     \<Rightarrow> (error + learn_result) \<times> ('vs, 'w) engine" where
  "learn_from_feedback_try sv s user_id instruction generated_content feedback rating =
     (let feedback_doc =
            feedback_document user_id instruction generated_content feedback rating
      in
      case vector_store s of
        Some vs \<Rightarrow>
          (case call_split sv s [feedback_doc] of
             (Inl e, s1) \<Rightarrow> (Inl e, s1)
           | (Inr chunks, s1) \<Rightarrow>
               (case call_add_documents sv s1 vs chunks of
                  (Some e, s2) \<Rightarrow> (Inl e, s2)
                | (None, s2) \<Rightarrow>
                    (Inr (LearnStored (u ''Feedback stored for continuous learning'')), s2)))
      | None \<Rightarrow> (Inr (LearnNotStored (u ''Vector store not initialized'')), s))"

definition learn_from_feedback ::
  "('vs, 'w) services \<Rightarrow> ('vs, 'w) engine \<Rightarrow> pystr \<Rightarrow> pystr \<Rightarrow> pystr \<Rightarrow> pystr \<Rightarrow> int
     \<Rightarrow> (error + learn_result) \<times> ('vs, 'w) engine" where
  "learn_from_feedback sv s user_id instruction generated_content feedback rating =
     (case learn_from_feedback_try sv s user_id instruction generated_content feedback rating of
        (Inl e, s') \<Rightarrow> (Inr (LearnError (str_error e)), s')
      | (Inr r, s') \<Rightarrow> (Inr r, s'))"

subsection \<open>Suggestions\<close>

definition alignment_prompt :: "pystr \<Rightarrow> pystr \<Rightarrow> pystr" where
  \<open>alignment_prompt resume_text job_description =
     u ''You are an expert resume coach. Analyze this resume against the job description and provide specific, actionable improvements.\<newline>'' @
     u ''\<newline>'' @
     u ''RESUME:\<newline>'' @
     take 3000 resume_text @
     u ''\<newline>'' @
     u ''\<newline>'' @
     u ''TARGET JOB DESCRIPTION:\<newline>'' @
     take 2000 job_description @
     u ''\<newline>'' @
     u ''\<newline>'' @
     u ''Provide exactly 5 specific, actionable suggestions. Each suggestion should:\<newline>'' @
     u ''- Start with a clear action verb (Add, Quantify, Highlight, Reframe, Include)\<newline>'' @
     u ''- Be specific to this resume's content\<newline>'' @
     u ''- Directly improve alignment with the job requirements\<newline>'' @
     u ''\<newline>'' @
     u ''Format each suggestion as a single numbered line like:\<newline>'' @
     u ''1. [Action] - [Specific recommendation]\<newline>'' @
     u ''\<newline>'' @
     u ''SUGGESTIONS:''\<close>

definition general_prompt :: "pystr \<Rightarrow> pystr" where
  \<open>general_prompt resume_text =
     u ''You are an expert resume coach. Analyze this resume and provide specific improvements to make it stronger and more impactful.\<newline>'' @
     u ''\<newline>'' @
     u ''RESUME:\<newline>'' @
     take 3000 resume_text @
     u ''\<newline>'' @
     u ''\<newline>'' @
     u ''Provide exactly 5 specific, actionable suggestions to improve this resume. Focus on:\<newline>'' @
     u ''- Adding quantifiable metrics and achievements\<newline>'' @
     u ''- Strengthening action verbs\<newline>'' @
     u ''- Improving professional impact\<newline>'' @
     u ''- Highlighting transferable skills\<newline>'' @
     u ''- Enhancing overall clarity and readability\<newline>'' @
     u ''\<newline>'' @
     u ''Format each suggestion as a single numbered line like:\<newline>'' @
     u ''1. [Action] - [Specific recommendation based on actual content in the resume]\<newline>'' @
     u ''\<newline>'' @
     u ''SUGGESTIONS:''\<close>

definition suggestions_prompt :: "pystr \<Rightarrow> pystr option \<Rightarrow> pystr" where
  "suggestions_prompt resume_text job_description =
     (case job_description of
        None \<Rightarrow> general_prompt resume_text
      | Some jd \<Rightarrow>
          if has_specific_jd job_description then alignment_prompt resume_text jd
          else general_prompt resume_text)"

text \<open>
  \<^verbatim>\<open>line and (line[0].isdigit() or line.startswith('-') or line.startswith(bullet))\<close>
\<close>

definition list_like :: "(nat \<Rightarrow> bool) \<Rightarrow> pystr \<Rightarrow> bool" where
  "list_like isd line \<longleftrightarrow>
     line \<noteq> [] \<and> (isd (hd line) \<or> startswith line (u ''-'') \<or> startswith line [8226])"

text \<open>The characters \<^verbatim>\<open>lstrip\<close> is given: digits, full stop, hyphen, bullet, bracket, space.\<close>

definition MARKERS :: pystr where
  "MARKERS = u ''0123456789.-'' @ [8226] @ u '') ''"

definition clean_line :: "pystr \<Rightarrow> pystr" where
  "clean_line line = strip (lstrip_chars MARKERS line)"

text \<open>The loop over \<^verbatim>\<open>raw_lines\<close>, with \<^verbatim>\<open>suggestions\<close> as its accumulator.\<close>

fun scan_lines :: "(nat \<Rightarrow> bool) \<Rightarrow> pystr list \<Rightarrow> pystr list \<Rightarrow> pystr list" where
  "scan_lines isd [] suggestions = suggestions"
| "scan_lines isd (raw # rest) suggestions =
     (let line = strip raw in
      if list_like isd line then
        (let cleaned = clean_line line in
         if cleaned \<noteq> [] \<and> 10 < length cleaned
         then scan_lines isd rest (suggestions @ [cleaned])
         else scan_lines isd rest suggestions)
      else scan_lines isd rest suggestions)"

definition raw_fallback :: "pystr list \<Rightarrow> pystr list" where
  "raw_fallback raw_lines =
     map strip (filter (\<lambda>s. strip s \<noteq> [] \<and> 10 < length (strip s)) raw_lines)"

definition parse_suggestions :: "(nat \<Rightarrow> bool) \<Rightarrow> pystr \<Rightarrow> pystr list" where
  "parse_suggestions isd text =
     (let raw_lines = split_lines (strip text);
          suggestions = scan_lines isd raw_lines []
      in take 5 (if suggestions = [] then raw_fallback raw_lines else suggestions))"

definition get_suggestions_try ::
  "('vs, 'w) services \<Rightarrow> ('vs, 'w) engine \<Rightarrow> pystr \<Rightarrow> pystr option
     \<Rightarrow> (error + pystr list) \<times> ('vs, 'w) engine" where
  "get_suggestions_try sv s resume_text job_description =
     (case call_generate sv s (suggestions_prompt resume_text job_description) of
        (Inl e, s1) \<Rightarrow> (Inl e, s1)
      | (Inr text, s1) \<Rightarrow> (Inr (parse_suggestions (isdigit sv) text), s1))"

definition get_suggestions ::
  "('vs, 'w) services \<Rightarrow> ('vs, 'w) engine \<Rightarrow> pystr \<Rightarrow> pystr option
     \<Rightarrow> (error + pystr list) \<times> ('vs, 'w) engine" where
  "get_suggestions sv s resume_text job_description =
     (case get_suggestions_try sv s resume_text job_description of
        (Inl e, s') \<Rightarrow>
          (Inr [u ''Unable to generate suggestions: '' @ str_error e @
                u ''. Please check your GEMINI_API_KEY.''], s')
      | (Inr suggestions, s') \<Rightarrow> (Inr suggestions, s'))"

subsection \<open>Refinement from feedback\<close>

text \<open>The dict \<^verbatim>\<open>interactive_refinement\<close> returns.\<close>

record refinement =
  learning_status :: learn_result
  refined_content :: generation_result
  improvement_applied :: bool

definition refined_instruction :: "pystr \<Rightarrow> pystr \<Rightarrow> pystr" where
  "refined_instruction previous_instruction feedback =
     previous_instruction @
     u ''\<newline>\<newline>User Feedback: '' @ feedback @
     u ''\<newline>\<newline>Please improve based on this feedback.''"

definition interactive_refinement ::
  "('vs, 'w) services \<Rightarrow> ('vs, 'w) engine \<Rightarrow> pystr \<Rightarrow> pystr \<Rightarrow> int \<Rightarrow> pystr \<Rightarrow> pystr
     \<Rightarrow> (error + refinement) \<times> ('vs, 'w) engine" where
  "interactive_refinement sv s user_id feedback rating previous_instruction previous_content =
     (case learn_from_feedback sv s user_id previous_instruction previous_content
             feedback rating of
        (Inl e, s1) \<Rightarrow> (Inl e, s1)
      | (Inr learn_result, s1) \<Rightarrow>
          (case generate_tailored_content sv s1
                  (refined_instruction previous_instruction feedback) user_id None of
             (Inl e, s2) \<Rightarrow> (Inl e, s2)
           | (Inr content, s2) \<Rightarrow>
               (Inr \<lparr>learning_status = learn_result,
                     refined_content = content,
                     improvement_applied = True\<rparr>, s2)))"

section \<open>A stubbed agent for concrete runs\<close>

text \<open>
  A model that answers with canned responses in order, and a JSON parser that knows the
  three canned texts and rejects everything else.
\<close>

definition canned_model :: "pystr list \<Rightarrow> pystr \<Rightarrow> (error + pystr) \<times> pystr list" where
  "canned_model responses prompt =
     (case responses of
        [] \<Rightarrow> (Inl (ServiceError (u ''quota exceeded'')), [])
      | r # rs \<Rightarrow> (Inr r, rs))"

definition canned_job :: pystr where
  \<open>canned_job = u ''{"required_skills": ["Python", "AWS"]}''\<close>

definition canned_resume :: pystr where
  \<open>canned_resume = u ''{"name": "Jane Doe", "skills": ["Python"]}''\<close>

definition canned_strategy :: pystr where
  \<open>canned_strategy = u ''{"overall_match_score": 72, "gaps": [{"missing": "AWS"}]}''\<close>

definition parsed_job :: json where
  "parsed_job = JObj [(u ''required_skills'', JArr [JStr (u ''Python''), JStr (u ''AWS'')])]"

definition parsed_resume :: json where
  "parsed_resume =
     JObj [(u ''name'', JStr (u ''Jane Doe'')), (u ''skills'', JArr [JStr (u ''Python'')])]"

definition parsed_strategy :: json where
  "parsed_strategy =
     JObj [(u ''overall_match_score'', JInt 72),
           (u ''gaps'', JArr [JObj [(u ''missing'', JStr (u ''AWS''))]])]"

definition canned_loads :: "pystr \<Rightarrow> error + json" where
  "canned_loads text =
     (case map_of [(canned_job, parsed_job), (canned_resume, parsed_resume),
                   (canned_strategy, parsed_strategy)] text of
        None \<Rightarrow> Inl (JSONDecodeError (u ''Expecting value''))
      | Some v \<Rightarrow> Inr v)"

definition stub_agent :: "pystr \<Rightarrow> pystr list agent" where
  "stub_agent template =
     \<lparr>generate_content = canned_model,
      json_loads = canned_loads,
      json_dumps = (\<lambda>v. type_name v),
      latex_template = template,
      module_dir = u ''agents'',
      can_open = (\<lambda>path. True),
      write_fails = (\<lambda>path text. None)\<rparr>"

definition fresh_world :: "pystr list \<Rightarrow> pystr list world" where
  "fresh_world responses = \<lparr>model_state = responses, calls = [], files = Map.empty\<rparr>"

text \<open>
  The reading of the renderer in which the content goes to one placeholder position:
  the first occurrence of \<open>old\<close> is replaced and the rest of the text is kept.
\<close>

fun replace_first :: "pystr \<Rightarrow> pystr \<Rightarrow> pystr \<Rightarrow> pystr" where
  "replace_first old new [] = (if old = [] then new else [])"
| "replace_first old new (c # cs) =
     (if startswith (c # cs) old then new @ drop (length old) (c # cs)
      else c # replace_first old new cs)"

definition scenario_job :: pystr where
  "scenario_job = u ''Senior ML Engineer; requires Python, AWS''"

definition scenario_resume :: pystr where
  "scenario_resume = u ''Jane Doe; 5 years Python, no AWS''"

definition plain_template :: pystr where
  "plain_template = u ''%% resume\<newline>{{CONTENT}}\<newline>%% end''"

section \<open>Stubbed collaborators for concrete runs of the engine\<close>

text \<open>
  An index is the list of its chunks and the disk an association list from paths to
  saved indexes. The splitter returns each document as one chunk; similarity search
  returns the first \<open>k\<close> chunks; the chain answers with the chunks its retriever gives
  it (the first five of the index), joined; the model answers every prompt with
  \<open>reply\<close>; saving fails when \<open>disk_ok\<close> is false.
\<close>

definition stub_services ::
  "bool \<Rightarrow> pystr \<Rightarrow> (document list, (pystr \<times> document list) list) services" where
  "stub_services disk_ok reply =
     \<lparr>split_documents = (\<lambda>docs. Inr docs),
      from_documents = (\<lambda>w chunks. (Inr chunks, w)),
      save_local = (\<lambda>w vs path.
         if disk_ok then (None, (path, vs) # w)
         else (Some (OSError (u ''No space left on device'')), w)),
      path_exists = (\<lambda>w path. map_of w path \<noteq> None),
      load_local = (\<lambda>w path.
         case map_of w path of
           None \<Rightarrow> (Inl (OSError (u ''No such file or directory'')), w)
         | Some vs \<Rightarrow> (Inr vs, w)),
      similarity_search = (\<lambda>w vs query k. (Inr (take k vs), w)),
      add_documents = (\<lambda>w vs chunks. ((None, vs @ chunks), w)),
      retrieval_qa = (\<lambda>w vs template query.
         (Inr (join (u ''\<newline>\<newline>'') (map page_content (take 5 vs)), take 5 vs), w)),
      gemini_generate = (\<lambda>w prompt. (Inr reply, w)),
      isdigit = (\<lambda>c. 48 \<le> c \<and> c \<le> 57)\<rparr>"

definition jd50 :: pystr where
  "jd50 = u ''  Senior ML Engineer; requires Python, AWS and Spark \<newline>''"

definition jd51 :: pystr where
  "jd51 = u ''  Senior ML Engineer; requires Python, AWS and Spark. \<newline>''"

definition numbered_reply :: pystr where
  "numbered_reply =
     u ''Here are my suggestions:\<newline>'' @
     u ''1. Quantify - state the size of the data sets\<newline>'' @
     u ''2) Add AWS\<newline>'' @
     u ''- Highlight the Python projects first\<newline>'' @
     [8226] @ u '' Reframe the summary for ML roles\<newline>'' @
     u ''3. Include the GitHub profile link\<newline>'' @
     u ''4. Add - list the cloud certifications\<newline>'' @
     u ''5. Quantify - give the sizes of the teams led\<newline>''"

fun is_load :: "event \<Rightarrow> bool" where
  "is_load (LoadLocal path) = True"
| "is_load ev = False"

definition saved_index_only :: "(document list, (pystr \<times> document list) list) engine" where
  "saved_index_only =
     \<lparr>vector_store = None,
      outside = [(store_path_of (u ''7''), [resume_document scenario_resume (u ''7'')])],
      trace = []\<rparr>"

definition resident_index :: "(document list, (pystr \<times> document list) list) engine" where
  "resident_index =
     \<lparr>vector_store = Some [resume_document scenario_resume (u ''7'')],
      outside = [],
      trace = []\<rparr>"

definition fallback_reply :: pystr where
  "fallback_reply = u ''Sure.\<newline>Add numbers to every bullet\<newline>ok''"

definition marked_short_reply :: pystr where
  "marked_short_reply =
     u ''1. short\<newline>2. tiny tiny\<newline>This is a plain long line''"

section \<open>Lemmas about the string functions and the stages\<close>

lemma u_append: "u a @ u b = u (a @ b)"
  by (simp add: u_def)

lemma replace_Nil: "old \<noteq> [] \<Longrightarrow> replace old new [] = []"
  by (simp add: replace.simps)

lemma replace_Cons_skip:
  "old \<noteq> [] \<Longrightarrow> \<not> startswith (c # cs) old \<Longrightarrow> replace old new (c # cs) = c # replace old new cs"
  by (subst replace.simps) simp

lemma replace_hit:
  "old \<noteq> [] \<Longrightarrow> replace old new (old @ post) = new @ replace old new post"
  by (subst replace.simps) (simp add: startswith_def)

lemma replace_absent:
  "old \<noteq> [] \<Longrightarrow> \<not> contains s old \<Longrightarrow> replace old new s = s"
  by (induction s) (simp_all add: replace_Nil replace_Cons_skip)

lemma startswith_append_long:
  "length old \<le> length xs \<Longrightarrow> startswith (xs @ ys) old = startswith xs old"
  by (simp add: startswith_def)

lemma replace_first_occurrence:
  assumes "old \<noteq> []"
  shows "\<not> contains (pre @ butlast old) old \<Longrightarrow>
         replace old new (pre @ old @ post) = pre @ new @ replace old new post"
proof (induction pre)
  case Nil
  then show ?case using assms by (simp add: replace_hit)
next
  case (Cons c pre)
  from Cons.prems have ns: "\<not> startswith ((c # pre) @ butlast old) old"
    and nc: "\<not> contains (pre @ butlast old) old" by simp_all
  have split: "(c # pre) @ old @ post = ((c # pre) @ butlast old) @ ([last old] @ post)"
    using assms by simp
  have len: "length old \<le> length ((c # pre) @ butlast old)" using assms by simp
  have "\<not> startswith ((c # pre) @ old @ post) old"
    unfolding split using ns startswith_append_long [OF len] by blast
  then have "replace old new ((c # pre) @ old @ post) = c # replace old new (pre @ old @ post)"
    using assms replace_Cons_skip [of old c "pre @ old @ post" new] by simp
  with Cons.IH [OF nc] show ?case by simp
qed

lemma PLACEHOLDER_nonempty: "PLACEHOLDER \<noteq> []"
  by (simp add: PLACEHOLDER_def u_def)

lemma call_model_effect:
  "call_model ag w p = (r, w') \<Longrightarrow> calls w' = calls w @ [p] \<and> files w' = files w"
  by (auto simp: call_model_def split: prod.splits)

lemma parse_stage_effect:
  "parse_stage ag w p rep = (r, w') \<Longrightarrow> calls w' = calls w @ [p] \<and> files w' = files w"
  by (auto simp: parse_stage_def split: prod.splits sum.splits dest: call_model_effect)

lemma generate_tailored_resume_ok:
  assumes "generate_content ag (model_state w) (generator_prompt (json_dumps ag) rd st ja) = (Inr text, m')"
  shows "generate_tailored_resume ag w rd st ja =
           (Inr (replace PLACEHOLDER (strip_latex_fences text) (latex_template ag)),
            w\<lparr>model_state := m',
              calls := calls w @ [generator_prompt (json_dumps ag) rd st ja]\<rparr>)"
  using assms by (simp add: generate_tailored_resume_def call_model_def)

subsection \<open>Runs of the stubbed agent\<close>

lemma strip_canned:
  "strip_json_fences canned_job = canned_job"
  "strip_json_fences canned_resume = canned_resume"
  "strip_json_fences canned_strategy = canned_strategy"
  "strip_json_fences (u ''Sorry, I cannot help.'') = u ''Sorry, I cannot help.''"
  by (simp_all add: strip_json_fences_def replace.simps startswith_def strip_def lstrip_def
        rstrip_def isspace_def canned_job_def canned_resume_def canned_strategy_def u_def)

lemma loads_canned:
  "canned_loads canned_job = Inr parsed_job"
  "canned_loads canned_resume = Inr parsed_resume"
  "canned_loads canned_strategy = Inr parsed_strategy"
  "canned_loads (u ''Sorry, I cannot help.'') = Inl (JSONDecodeError (u ''Expecting value''))"
  by (simp_all add: canned_loads_def canned_job_def canned_resume_def canned_strategy_def u_def)

lemma reports_canned:
  "job_report parsed_job = Inr ()"
  "resume_report parsed_resume = Inr ()"
  "strategy_report parsed_strategy = Inr ()"
  by (simp_all add: job_report_def resume_report_def strategy_report_def len_of_get_def
        and_then_def parsed_job_def parsed_resume_def parsed_strategy_def u_def)

lemma stub_fields:
  "json_loads (stub_agent t) = canned_loads"
  "generate_content (stub_agent t) = canned_model"
  "latex_template (stub_agent t) = t"
  "can_open (stub_agent t) p"
  "module_dir (stub_agent t) = u ''agents''"
  by (simp_all add: stub_agent_def)

lemma parse_stage_canned:
  assumes "json_loads ag = canned_loads" "generate_content ag = canned_model"
    "strip_json_fences r = r" "canned_loads r = Inr v" "rep v = Inr ()"
  shows "parse_stage ag \<lparr>model_state = r # rs, calls = cs, files = fs\<rparr> p rep =
           (Inr v, \<lparr>model_state = rs, calls = cs @ [p], files = fs\<rparr>)"
  using assms by (simp add: parse_stage_def call_model_def canned_model_def)

lemma parse_stage_rejected:
  assumes "json_loads ag = canned_loads" "generate_content ag = canned_model"
    "strip_json_fences r = r" "canned_loads r = Inl e"
  shows "parse_stage ag \<lparr>model_state = r # rs, calls = cs, files = fs\<rparr> p rep =
           (Inl e, \<lparr>model_state = rs, calls = cs @ [p], files = fs\<rparr>)"
  using assms by (simp add: parse_stage_def call_model_def canned_model_def)

lemma stub_job:
  "analyze_job_description (stub_agent t)
     \<lparr>model_state = canned_job # rs, calls = cs, files = fs\<rparr> jd =
     (Inr parsed_job, \<lparr>model_state = rs, calls = cs @ [job_prompt jd], files = fs\<rparr>)"
  unfolding analyze_job_description_def
  by (rule parse_stage_canned) (simp_all add: stub_fields strip_canned loads_canned reports_canned)

lemma stub_resume:
  "analyze_resume (stub_agent t)
     \<lparr>model_state = canned_resume # rs, calls = cs, files = fs\<rparr> rt =
     (Inr parsed_resume, \<lparr>model_state = rs, calls = cs @ [resume_prompt rt], files = fs\<rparr>)"
  unfolding analyze_resume_def
  by (rule parse_stage_canned) (simp_all add: stub_fields strip_canned loads_canned reports_canned)

lemma stub_resume_rejected:
  "analyze_resume (stub_agent t)
     \<lparr>model_state = u ''Sorry, I cannot help.'' # rs, calls = cs, files = fs\<rparr> rt =
     (Inl (JSONDecodeError (u ''Expecting value'')),
      \<lparr>model_state = rs, calls = cs @ [resume_prompt rt], files = fs\<rparr>)"
  unfolding analyze_resume_def
  by (rule parse_stage_rejected) (simp_all add: stub_fields strip_canned loads_canned)

lemma stub_strategy:
  "create_matching_strategy (stub_agent t)
     \<lparr>model_state = canned_strategy # rs, calls = cs, files = fs\<rparr> ja rd =
     (Inr parsed_strategy,
      \<lparr>model_state = rs,
       calls = cs @ [strategy_prompt (json_dumps (stub_agent t)) ja rd], files = fs\<rparr>)"
  unfolding create_matching_strategy_def
  by (rule parse_stage_canned) (simp_all add: stub_fields strip_canned loads_canned reports_canned)

lemma stub_render:
  "generate_content (stub_agent t) (model_state (fresh_world [r])) p = (Inr r, [])"
  by (simp add: stub_fields canned_model_def fresh_world_def)

lemma strip_latex_example:
  "strip_latex_fences (u ''```latex\<newline>Jane Doe\<newline>```'') = u ''Jane Doe''"
  by (simp add: strip_latex_fences_def replace.simps startswith_def strip_def lstrip_def
        rstrip_def isspace_def u_def)

section \<open>Claims about the analysis and generation agents\<close>

text \<open>
  C2, as the code has it. For every template that contains no occurrence of the
  placeholder and every successful model response, \<open>generate_tailored_resume\<close> reports
  no error: it returns the template unchanged as the document.
\<close>

theorem no_placeholder_returns_template:
  assumes "\<not> contains (latex_template ag) PLACEHOLDER"
    and "generate_content ag (model_state w) (generator_prompt (json_dumps ag) rd st ja)
           = (Inr text, m')"
  shows "fst (generate_tailored_resume ag w rd st ja) = Inr (latex_template ag)"
  using assms
  by (simp add: generate_tailored_resume_ok replace_absent PLACEHOLDER_nonempty)

theorem no_placeholder_returns_template_witness:
  "fst (generate_tailored_resume (stub_agent (u ''%% a template without the marker''))
          (fresh_world [u ''```latex\<newline>Jane Doe\<newline>```'']) parsed_resume parsed_strategy parsed_job)
     = Inr (u ''%% a template without the marker'')"
proof -
  have "\<not> contains (latex_template (stub_agent (u ''%% a template without the marker'')))
            PLACEHOLDER"
    by (simp add: stub_fields PLACEHOLDER_def startswith_def u_def)
  from no_placeholder_returns_template [OF this stub_render]
  show ?thesis by (simp add: stub_fields)
qed

text \<open>
  C2, as stated, fails: with a template that has no placeholder and a model that answers,
  the call returns the template itself instead of failing.
\<close>

theorem no_placeholder_counterexample:
  "fst (generate_tailored_resume (stub_agent (u ''%% no marker''))
          (fresh_world [u ''Jane Doe'']) JNull JNull JNull)
     = Inr (u ''%% no marker'')"
  by (simp add: generate_tailored_resume_def call_model_def stub_fields canned_model_def
        fresh_world_def strip_latex_fences_def replace.simps startswith_def strip_def
        lstrip_def rstrip_def isspace_def PLACEHOLDER_def u_def)

text \<open>
  C3. If the job description is analysed and the resume extraction then fails,
  \<open>run_complete_analysis\<close> and \<open>run_complete_pipeline\<close> both fail with the extractor's
  error: no strategy and no document is produced (the model has been called for the job
  and the resume only), and the files are those of the start: neither the rendered
  \<^verbatim>\<open>.tex\<close> file nor the \<^verbatim>\<open>_analysis.json\<close> snapshot is written.
\<close>

theorem resume_failure_aborts_pipeline:
  assumes "analyze_job_description ag w jd = (Inr ja, w1)"
    and "analyze_resume ag w1 rt = (Inl e, w2)"
  shows "run_complete_analysis ag w jd rt = (Inl e, w2)
       \<and> run_complete_pipeline ag w jd rt out = (Inl e, w2)
       \<and> files w2 = files w
       \<and> calls w2 = calls w @ [job_prompt jd, resume_prompt rt]"
proof -
  have run: "run_complete_analysis ag w jd rt = (Inl e, w2)"
    using assms by (simp add: run_complete_analysis_def)
  have "calls w1 = calls w @ [job_prompt jd] \<and> files w1 = files w"
    using assms(1) unfolding analyze_job_description_def by (rule parse_stage_effect)
  moreover have "calls w2 = calls w1 @ [resume_prompt rt] \<and> files w2 = files w1"
    using assms(2) unfolding analyze_resume_def by (rule parse_stage_effect)
  ultimately show ?thesis
    using run by (simp add: run_complete_pipeline_def)
qed

theorem resume_failure_aborts_pipeline_witness:
  "run_complete_pipeline (stub_agent plain_template)
     (fresh_world [canned_job, u ''Sorry, I cannot help.'', canned_strategy])
     scenario_job scenario_resume (u ''tailored_resume.tex'')
   = (Inl (JSONDecodeError (u ''Expecting value'')),
      \<lparr>model_state = [canned_strategy],
       calls = [job_prompt scenario_job, resume_prompt scenario_resume],
       files = Map.empty\<rparr>)"
proof -
  have job: "analyze_job_description (stub_agent plain_template)
      (fresh_world [canned_job, u ''Sorry, I cannot help.'', canned_strategy]) scenario_job
    = (Inr parsed_job,
       \<lparr>model_state = [u ''Sorry, I cannot help.'', canned_strategy],
        calls = [job_prompt scenario_job], files = Map.empty\<rparr>)"
    by (simp add: fresh_world_def stub_job)
  have resume: "analyze_resume (stub_agent plain_template)
      \<lparr>model_state = [u ''Sorry, I cannot help.'', canned_strategy],
       calls = [job_prompt scenario_job], files = Map.empty\<rparr> scenario_resume
    = (Inl (JSONDecodeError (u ''Expecting value'')),
       \<lparr>model_state = [canned_strategy],
        calls = [job_prompt scenario_job, resume_prompt scenario_resume],
        files = Map.empty\<rparr>)"
    by (simp add: stub_resume_rejected)
  from resume_failure_aborts_pipeline [OF job resume]
  show ?thesis by simp
qed

text \<open>
  C5. \<open>run_complete_analysis\<close> returns a record exactly when the three stages succeed
  one after the other, each starting in the world the previous one left: job analysis,
  then resume analysis, then strategy synthesis on the outputs of the first two. The
  record holds the three outputs as the stages returned them, and the model has been
  called three times, with the job prompt, the resume prompt and the strategy prompt in
  that order.
\<close>

theorem run_complete_analysis_stages:
  "run_complete_analysis ag w jd rt = (Inr a, w') \<longleftrightarrow>
     (\<exists>w1 w2.
        analyze_job_description ag w jd = (Inr (job_analysis a), w1)
      \<and> analyze_resume ag w1 rt = (Inr (resume_data a), w2)
      \<and> create_matching_strategy ag w2 (job_analysis a) (resume_data a)
          = (Inr (strategy a), w')
      \<and> calls w' = calls w @ [job_prompt jd, resume_prompt rt,
                               strategy_prompt (json_dumps ag) (job_analysis a) (resume_data a)])"
proof
  assume run: "run_complete_analysis ag w jd rt = (Inr a, w')"
  then obtain w1 w2 where
    s1: "analyze_job_description ag w jd = (Inr (job_analysis a), w1)" and
    s2: "analyze_resume ag w1 rt = (Inr (resume_data a), w2)" and
    s3: "create_matching_strategy ag w2 (job_analysis a) (resume_data a) = (Inr (strategy a), w')"
    by (auto simp: run_complete_analysis_def split: prod.splits sum.splits)
  have "calls w1 = calls w @ [job_prompt jd]"
    using s1 unfolding analyze_job_description_def by (auto dest: parse_stage_effect)
  moreover have "calls w2 = calls w1 @ [resume_prompt rt]"
    using s2 unfolding analyze_resume_def by (auto dest: parse_stage_effect)
  moreover have "calls w' = calls w2 @
      [strategy_prompt (json_dumps ag) (job_analysis a) (resume_data a)]"
    using s3 unfolding create_matching_strategy_def by (auto dest: parse_stage_effect)
  ultimately show "\<exists>w1 w2.
        analyze_job_description ag w jd = (Inr (job_analysis a), w1)
      \<and> analyze_resume ag w1 rt = (Inr (resume_data a), w2)
      \<and> create_matching_strategy ag w2 (job_analysis a) (resume_data a)
          = (Inr (strategy a), w')
      \<and> calls w' = calls w @ [job_prompt jd, resume_prompt rt,
                               strategy_prompt (json_dumps ag) (job_analysis a) (resume_data a)]"
    using s1 s2 s3 by auto
next
  assume "\<exists>w1 w2.
        analyze_job_description ag w jd = (Inr (job_analysis a), w1)
      \<and> analyze_resume ag w1 rt = (Inr (resume_data a), w2)
      \<and> create_matching_strategy ag w2 (job_analysis a) (resume_data a)
          = (Inr (strategy a), w')
      \<and> calls w' = calls w @ [job_prompt jd, resume_prompt rt,
                               strategy_prompt (json_dumps ag) (job_analysis a) (resume_data a)]"
  then show "run_complete_analysis ag w jd rt = (Inr a, w')"
    by (auto simp: run_complete_analysis_def)
qed

theorem run_complete_analysis_stages_witness:
  "run_complete_analysis (stub_agent plain_template)
     (fresh_world [canned_job, canned_resume, canned_strategy]) scenario_job scenario_resume
   = (Inr \<lparr>job_analysis = parsed_job, resume_data = parsed_resume,
            strategy = parsed_strategy\<rparr>,
      \<lparr>model_state = [],
       calls = [job_prompt scenario_job, resume_prompt scenario_resume,
                strategy_prompt (json_dumps (stub_agent plain_template))
                  parsed_job parsed_resume],
       files = Map.empty\<rparr>)
   \<and> py_get parsed_strategy (u ''overall_match_score'') (JStr (u ''N/A'')) = Inr (JInt 72)"
proof -
  have score: "py_get parsed_strategy (u ''overall_match_score'') (JStr (u ''N/A''))
                 = Inr (JInt 72)"
    by (simp add: parsed_strategy_def u_def)
  have "run_complete_analysis (stub_agent plain_template)
     (fresh_world [canned_job, canned_resume, canned_strategy]) scenario_job scenario_resume
   = (Inr \<lparr>job_analysis = parsed_job, resume_data = parsed_resume,
            strategy = parsed_strategy\<rparr>,
      \<lparr>model_state = [],
       calls = [job_prompt scenario_job, resume_prompt scenario_resume,
                strategy_prompt (json_dumps (stub_agent plain_template))
                  parsed_job parsed_resume],
       files = Map.empty\<rparr>)"
    unfolding run_complete_analysis_stages
    by (simp add: fresh_world_def stub_job stub_resume stub_strategy)
  with score show ?thesis by simp
qed

text \<open>
  C6, as the code has it. When the model answers, the rendered output is the template
  with every occurrence of the placeholder (found from the left, without overlap)
  replaced by the model's content once its code fences are removed and it is trimmed.
  With the first occurrence after \<open>pre\<close>, the output is \<open>pre\<close>, then the content, then
  the rendering of what follows; when the placeholder occurs exactly once, the output is
  \<open>pre\<close>, the content and \<open>post\<close>, so every character of the template outside the
  placeholder is unchanged. The output is a function of the template and the model's
  text: a second render in another world where the model gives the same text yields the
  same output.
\<close>

theorem render_replaces_every_placeholder:
  assumes "generate_content ag (model_state w) (generator_prompt (json_dumps ag) rd st ja)
             = (Inr text, m')"
  shows "fst (generate_tailored_resume ag w rd st ja)
           = Inr (replace PLACEHOLDER (strip_latex_fences text) (latex_template ag))
       \<and> (latex_template ag = pre @ PLACEHOLDER @ post
            \<longrightarrow> \<not> contains (pre @ butlast PLACEHOLDER) PLACEHOLDER
            \<longrightarrow> fst (generate_tailored_resume ag w rd st ja)
                  = Inr (pre @ strip_latex_fences text @
                         replace PLACEHOLDER (strip_latex_fences text) post))
       \<and> (latex_template ag = pre @ PLACEHOLDER @ post
            \<longrightarrow> \<not> contains (pre @ butlast PLACEHOLDER) PLACEHOLDER
            \<longrightarrow> \<not> contains post PLACEHOLDER
            \<longrightarrow> fst (generate_tailored_resume ag w rd st ja)
                  = Inr (pre @ strip_latex_fences text @ post))
       \<and> (generate_content ag (model_state w2) (generator_prompt (json_dumps ag) rd st ja)
             = (Inr text, m2)
            \<longrightarrow> fst (generate_tailored_resume ag w2 rd st ja)
                  = fst (generate_tailored_resume ag w rd st ja))"
proof -
  have out: "fst (generate_tailored_resume ag w rd st ja)
           = Inr (replace PLACEHOLDER (strip_latex_fences text) (latex_template ag))"
    using assms by (simp add: generate_tailored_resume_ok)
  have first: "replace PLACEHOLDER c (pre @ PLACEHOLDER @ post)
                 = pre @ c @ replace PLACEHOLDER c post"
    if "\<not> contains (pre @ butlast PLACEHOLDER) PLACEHOLDER" for c
    using that by (rule replace_first_occurrence [OF PLACEHOLDER_nonempty])
  have once: "replace PLACEHOLDER c post = post" if "\<not> contains post PLACEHOLDER" for c
    using that by (rule replace_absent [OF PLACEHOLDER_nonempty])
  show ?thesis
    using out first once by (simp add: generate_tailored_resume_ok)
qed

theorem render_replaces_every_placeholder_witness:
  "fst (generate_tailored_resume (stub_agent plain_template)
          (fresh_world [u ''```latex\<newline>Jane Doe\<newline>```''])
          parsed_resume parsed_strategy parsed_job)
     = Inr (u ''%% resume\<newline>Jane Doe\<newline>%% end'')"
proof -
  have shape: "latex_template (stub_agent plain_template)
                 = u ''%% resume\<newline>'' @ PLACEHOLDER @ u ''\<newline>%% end''"
    by (simp add: stub_fields plain_template_def PLACEHOLDER_def u_def)
  have before: "\<not> contains (u ''%% resume\<newline>'' @ butlast PLACEHOLDER) PLACEHOLDER"
    by (simp add: PLACEHOLDER_def startswith_def u_def)
  have after: "\<not> contains (u ''\<newline>%% end'') PLACEHOLDER"
    by (simp add: PLACEHOLDER_def startswith_def u_def)
  have "fst (generate_tailored_resume (stub_agent plain_template)
          (fresh_world [u ''```latex\<newline>Jane Doe\<newline>```''])
          parsed_resume parsed_strategy parsed_job)
        = Inr (u ''%% resume\<newline>'' @
               strip_latex_fences (u ''```latex\<newline>Jane Doe\<newline>```'') @
               u ''\<newline>%% end'')"
    using render_replaces_every_placeholder [OF stub_render,
        where pre = "u ''%% resume\<newline>''" and post = "u ''\<newline>%% end''"]
      shape before after
    by blast
  then show ?thesis by (simp add: strip_latex_example u_append)
qed

text \<open>
  C6, as stated, fails: a template with two placeholders receives the content at both
  positions, where a merge at a single position would leave the second placeholder.
\<close>

theorem single_position_counterexample:
  "fst (generate_tailored_resume (stub_agent (u ''{{CONTENT}}|{{CONTENT}}''))
          (fresh_world [u ''x'']) JNull JNull JNull)
     = Inr (u ''x|x'')
   \<and> replace_first PLACEHOLDER (strip_latex_fences (u ''x'')) (u ''{{CONTENT}}|{{CONTENT}}'')
     = u ''x|{{CONTENT}}''"
  by (simp add: generate_tailored_resume_def call_model_def stub_fields canned_model_def
        fresh_world_def strip_latex_fences_def replace.simps startswith_def strip_def
        lstrip_def rstrip_def isspace_def PLACEHOLDER_def u_def)

section \<open>Lemmas about the retrieval engine\<close>

subsection \<open>What each call to a collaborator leaves behind\<close>

lemma call_split_effect:
  "call_split sv s docs = (r, s') \<Longrightarrow>
     r = split_documents sv docs \<and> s' = s\<lparr>trace := trace s @ [SplitDocuments docs]\<rparr>"
  by (auto simp: call_split_def log_call_def)

lemma call_from_documents_effect:
  "call_from_documents sv s chunks = (r, s') \<Longrightarrow>
     \<exists>w'. from_documents sv (outside s) chunks = (r, w')
        \<and> s' = s\<lparr>outside := w', trace := trace s @ [FromDocuments chunks]\<rparr>"
  by (auto simp: call_from_documents_def log_call_def split: prod.splits)

lemma call_save_local_effect:
  "call_save_local sv s vs path = (r, s') \<Longrightarrow>
     \<exists>w'. save_local sv (outside s) vs path = (r, w')
        \<and> s' = s\<lparr>outside := w', trace := trace s @ [SaveLocal path]\<rparr>"
  by (auto simp: call_save_local_def log_call_def split: prod.splits)

lemma call_similarity_search_effect:
  "call_similarity_search sv s vs query k = (r, s') \<Longrightarrow>
     \<exists>w'. similarity_search sv (outside s) vs query k = (r, w')
        \<and> s' = s\<lparr>outside := w', trace := trace s @ [SimilaritySearch query k]\<rparr>"
  by (auto simp: call_similarity_search_def log_call_def split: prod.splits)

lemma call_add_documents_effect:
  "call_add_documents sv s vs chunks = (r, s') \<Longrightarrow>
     \<exists>vs' w'. add_documents sv (outside s) vs chunks = ((r, vs'), w')
        \<and> s' = s\<lparr>vector_store := Some vs', outside := w',
                   trace := trace s @ [AddDocuments chunks]\<rparr>"
  by (auto simp: call_add_documents_def log_call_def split: prod.splits)

lemma call_generate_effect:
  "call_generate sv s prompt = (r, s') \<Longrightarrow>
     \<exists>w'. gemini_generate sv (outside s) prompt = (r, w')
        \<and> s' = s\<lparr>outside := w', trace := trace s @ [GenerateContent prompt]\<rparr>"
  by (auto simp: call_generate_def log_call_def split: prod.splits)

lemma call_retrieval_qa_effect:
  "call_retrieval_qa sv s vs template query = (r, s') \<Longrightarrow>
     \<exists>w'. retrieval_qa sv (outside s) vs template query = (r, w')
        \<and> s' = s\<lparr>outside := w', trace := trace s @ [RetrievalQA template query]\<rparr>"
  by (auto simp: call_retrieval_qa_def log_call_def split: prod.splits)

subsection \<open>Methods that never load an index from disk\<close>

lemma retrieve_context_loads:
  "retrieve_context sv s query k = (r, s') \<Longrightarrow>
     filter is_load (trace s') = filter is_load (trace s)"
  by (auto simp: retrieve_context_def split: option.splits
        dest!: call_similarity_search_effect)

lemma ingest_documents_loads:
  "ingest_documents sv s r jd uid = (res, s') \<Longrightarrow>
     filter is_load (trace s') = filter is_load (trace s)"
  by (auto simp: ingest_documents_def ingest_documents_try_def Let_def
        split: prod.splits sum.splits option.splits
        dest!: call_split_effect call_from_documents_effect call_save_local_effect)

lemma learn_from_feedback_loads:
  "learn_from_feedback sv s uid instr content fb rating = (res, s') \<Longrightarrow>
     filter is_load (trace s') = filter is_load (trace s)"
  by (auto simp: learn_from_feedback_def learn_from_feedback_try_def Let_def
        split: prod.splits sum.splits option.splits
        dest!: call_split_effect call_add_documents_effect)

lemma get_suggestions_loads:
  "get_suggestions sv s r jd = (res, s') \<Longrightarrow>
     filter is_load (trace s') = filter is_load (trace s)"
  by (auto simp: get_suggestions_def get_suggestions_try_def
        split: prod.splits sum.splits dest!: call_generate_effect)

subsection \<open>The public methods of the engine catch every exception\<close>

lemma generate_tailored_content_returns:
  "\<exists>r s'. generate_tailored_content sv s instr uid override = (Inr r, s')"
  by (auto simp: generate_tailored_content_def split: prod.splits sum.splits)

lemma learn_from_feedback_returns:
  "\<exists>r s'. learn_from_feedback sv s uid instr content fb rating = (Inr r, s')"
  by (auto simp: learn_from_feedback_def split: prod.splits sum.splits)

lemma get_suggestions_returns:
  "\<exists>l s'. get_suggestions sv s r jd = (Inr l, s')"
  by (auto simp: get_suggestions_def split: prod.splits sum.splits)

subsection \<open>The suggestion parser\<close>

lemma scan_lines_all:
  "\<forall>x \<in> set acc. 10 < length x \<Longrightarrow> \<forall>x \<in> set (scan_lines isd ls acc). 10 < length x"
proof (induction ls arbitrary: acc)
  case Nil
  then show ?case by simp
next
  case (Cons raw ls)
  show ?case
  proof (cases "list_like isd (strip raw) \<and> clean_line (strip raw) \<noteq> []
                  \<and> 10 < length (clean_line (strip raw))")
    case True
    then have "\<forall>x \<in> set (acc @ [clean_line (strip raw)]). 10 < length x"
      using Cons.prems by simp
    from Cons.IH [OF this] True show ?thesis by (simp add: Let_def)
  next
    case False
    with Cons.IH [OF Cons.prems] show ?thesis by (auto simp: Let_def)
  qed
qed

lemma scan_lines_none_list_like:
  "\<forall>l \<in> set ls. \<not> list_like isd (strip l) \<Longrightarrow> scan_lines isd ls acc = acc"
  by (induction ls arbitrary: acc) (auto simp: Let_def)

lemma scan_lines_filter:
  "scan_lines isd ls acc =
     acc @ filter (\<lambda>c. 10 < length c) (map clean_line (filter (list_like isd) (map strip ls)))"
  by (induction ls arbitrary: acc) (auto simp: Let_def)

lemma raw_fallback_all: "\<forall>x \<in> set (raw_fallback ls). 10 < length x"
  by (auto simp: raw_fallback_def)

lemma parse_suggestions_bounds:
  "length (parse_suggestions isd text) \<le> 5
   \<and> (\<forall>x \<in> set (parse_suggestions isd text). 10 < length x)"
proof -
  have "\<forall>x \<in> set (scan_lines isd (split_lines (strip text)) []). 10 < length x"
    by (rule scan_lines_all) simp
  then show ?thesis
    using raw_fallback_all [of "split_lines (strip text)"]
    by (auto simp: parse_suggestions_def Let_def dest: in_set_takeD)
qed

lemma parse_suggestions_marked:
  "parse_suggestions isd reply =
     take 5
       (let raw_lines = split_lines (strip reply);
            marked = filter (\<lambda>c. 10 < length c)
                       (map clean_line (filter (list_like isd) (map strip raw_lines)))
        in if marked = [] then raw_fallback raw_lines else marked)"
  by (simp add: parse_suggestions_def Let_def scan_lines_filter)

lemma parse_suggestions_fallback:
  "\<forall>l \<in> set (split_lines (strip text)). \<not> list_like isd (strip l) \<Longrightarrow>
     parse_suggestions isd text = take 5 (raw_fallback (split_lines (strip text)))"
  by (simp add: parse_suggestions_def Let_def scan_lines_none_list_like)

subsection \<open>Ingestion, step by step\<close>

lemma ingest_documents_success:
  assumes "split_documents sv (documents_for r jd uid) = Inr chunks"
    and "from_documents sv (outside s) chunks = (Inr vs, w1)"
    and "save_local sv w1 vs (store_path_of uid) = (None, w2)"
  shows "ingest_documents sv s r jd uid =
           (Inr (IngestSuccess (length chunks) (has_specific_jd jd) (store_path_of uid)
                   (ingest_message (has_specific_jd jd))),
            s\<lparr>vector_store := Some vs, outside := w2,
              trace := trace s @ [SplitDocuments (documents_for r jd uid),
                                  FromDocuments chunks, SaveLocal (store_path_of uid)]\<rparr>)"
  using assms
  by (simp add: ingest_documents_def ingest_documents_try_def Let_def call_split_def
        call_from_documents_def call_save_local_def log_call_def)

lemma ingest_documents_save_fails:
  assumes "split_documents sv (documents_for r jd uid) = Inr chunks"
    and "from_documents sv (outside s) chunks = (Inr vs, w1)"
    and "save_local sv w1 vs (store_path_of uid) = (Some e, w2)"
  shows "ingest_documents sv s r jd uid =
           (Inr (IngestFailure (str_error e)
                   (u ''Failed to ingest documents. Check GEMINI_API_KEY.'')),
            s\<lparr>vector_store := Some vs, outside := w2,
              trace := trace s @ [SplitDocuments (documents_for r jd uid),
                                  FromDocuments chunks, SaveLocal (store_path_of uid)]\<rparr>)"
  using assms
  by (simp add: ingest_documents_def ingest_documents_try_def Let_def call_split_def
        call_from_documents_def call_save_local_def log_call_def)

lemma short_jd_not_specific:
  "length (strip jd) \<le> 50 \<Longrightarrow> \<not> has_specific_jd (Some jd)"
  by (simp add: has_specific_jd_def)

lemma long_jd_specific:
  "50 < length (strip jd) \<Longrightarrow> has_specific_jd (Some jd)"
  by (auto simp: has_specific_jd_def strip_def lstrip_def rstrip_def)

lemma has_specific_jd_None: "\<not> has_specific_jd None"
  by (simp add: has_specific_jd_def)

lemma ingest_documents_short_jd:
  "\<not> has_specific_jd (Some jd) \<Longrightarrow>
     ingest_documents sv s r (Some jd) uid = ingest_documents sv s r None uid"
  by (simp add: ingest_documents_def ingest_documents_try_def documents_for_def
        has_specific_jd_None)

lemma get_suggestions_short_jd:
  "\<not> has_specific_jd (Some jd) \<Longrightarrow>
     get_suggestions sv s r (Some jd) = get_suggestions sv s r None"
  by (simp add: get_suggestions_def get_suggestions_try_def suggestions_prompt_def)

subsection \<open>Generation, step by step\<close>

lemma generate_with_index_override:
  "c \<noteq> [] \<Longrightarrow> vector_store s = Some vs \<Longrightarrow>
     generate_with_index sv s instr (Some c) =
       (case call_retrieval_qa sv s vs prompt_template instr of
          (Inl e, s2) \<Rightarrow> (Inl e, s2)
        | (Inr (answer, sources), s2) \<Rightarrow>
            (Inr (GenerationSuccess answer
                    (map (\<lambda>doc. take 200 (page_content doc)) sources) instr), s2))"
  by (simp add: generate_with_index_def bind_context_def)

lemma generate_with_index_trace:
  "generate_with_index sv s instr override = (r, s') \<Longrightarrow> \<exists>evs. trace s' = trace s @ evs"
  by (auto simp: generate_with_index_def bind_context_def retrieve_context_def
        split: prod.splits sum.splits option.splits if_splits
        dest!: call_similarity_search_effect call_retrieval_qa_effect)

lemma generate_tailored_content_loads_from_disk:
  assumes "vector_store s = None" and "path_exists sv (outside s) (store_path_of uid)"
  shows "take (length (trace s) + 2)
           (trace (snd (generate_tailored_content sv s instr uid override)))
         = trace s @ [PathExists (store_path_of uid), LoadLocal (store_path_of uid)]"
proof -
  obtain r w' where load: "load_local sv (outside s) (store_path_of uid) = (r, w')"
    by (cases "load_local sv (outside s) (store_path_of uid)")
  let ?s2 = "s\<lparr>outside := w',
      trace := trace s @ [PathExists (store_path_of uid), LoadLocal (store_path_of uid)]\<rparr>"
  show ?thesis
  proof (cases r)
    case (Inl e)
    with assms load show ?thesis
      by (simp add: generate_tailored_content_def generate_tailored_content_try_def
            call_path_exists_def call_load_local_def log_call_def Let_def)
  next
    case (Inr vs)
    obtain g s' where g: "generate_with_index sv (?s2\<lparr>vector_store := Some vs\<rparr>)
                             instr override = (g, s')"
      by (cases "generate_with_index sv (?s2\<lparr>vector_store := Some vs\<rparr>) instr override")
    from generate_with_index_trace [OF g] obtain evs where
      "trace s' = (trace s @ [PathExists (store_path_of uid), LoadLocal (store_path_of uid)]) @ evs"
      by auto
    moreover have "trace (snd (generate_tailored_content sv s instr uid override)) = trace s'"
      using assms load Inr g
      by (cases g)
         (simp_all add: generate_tailored_content_def generate_tailored_content_try_def
            call_path_exists_def call_load_local_def log_call_def Let_def)
    ultimately show ?thesis by simp
  qed
qed

subsection \<open>Runs of the engine on the stubbed collaborators\<close>

lemma stub_services_fields:
  "split_documents (stub_services ok reply) docs = Inr docs"
  "from_documents (stub_services ok reply) w chunks = (Inr chunks, w)"
  "save_local (stub_services True reply) w vs path = (None, (path, vs) # w)"
  "save_local (stub_services False reply) w vs path
     = (Some (OSError (u ''No space left on device'')), w)"
  "path_exists (stub_services ok reply) w path = (map_of w path \<noteq> None)"
  "load_local (stub_services ok reply) w path =
     (case map_of w path of
        None \<Rightarrow> (Inl (OSError (u ''No such file or directory'')), w)
      | Some vs \<Rightarrow> (Inr vs, w))"
  "similarity_search (stub_services ok reply) w vs query k = (Inr (take k vs), w)"
  "add_documents (stub_services ok reply) w vs chunks = ((None, vs @ chunks), w)"
  "retrieval_qa (stub_services ok reply) w vs template query =
     (Inr (join (u ''\<newline>\<newline>'') (map page_content (take 5 vs)), take 5 vs), w)"
  "gemini_generate (stub_services ok reply) w prompt = (Inr reply, w)"
  "isdigit (stub_services ok reply) c = (48 \<le> c \<and> c \<le> 57)"
  by (simp_all add: stub_services_def)

lemma jd50_length: "length (strip jd50) = 50"
  by (simp add: jd50_def strip_def lstrip_def rstrip_def isspace_def u_def)

lemma jd51_length: "length (strip jd51) = 51"
  by (simp add: jd51_def strip_def lstrip_def rstrip_def isspace_def u_def)

lemma learn_from_feedback_not_initialized:
  "vector_store s = None \<Longrightarrow>
     learn_from_feedback sv s uid instr content fb rating
       = (Inr (LearnNotStored (u ''Vector store not initialized'')), s)"
  by (simp add: learn_from_feedback_def learn_from_feedback_try_def)

lemma learn_from_feedback_with_index:
  assumes "vector_store s = Some vs"
    and "split_documents sv [feedback_document uid instr content fb rating] = Inr chunks"
    and "add_documents sv (outside s) vs chunks = ((err, vs'), w')"
  shows "learn_from_feedback sv s uid instr content fb rating
           = (Inr (case err of
                     None \<Rightarrow> LearnStored (u ''Feedback stored for continuous learning'')
                   | Some e \<Rightarrow> LearnError (str_error e)),
              s\<lparr>vector_store := Some vs', outside := w',
                trace := trace s @ [SplitDocuments [feedback_document uid instr content fb rating],
                                    AddDocuments chunks]\<rparr>)"
  using assms
  by (cases err)
     (simp_all add: learn_from_feedback_def learn_from_feedback_try_def call_split_def
        call_add_documents_def log_call_def)

lemma generate_tailored_content_override:
  "c \<noteq> [] \<Longrightarrow> vector_store s = Some vs \<Longrightarrow>
     generate_tailored_content sv s instr uid (Some c) =
       (case retrieval_qa sv (outside s) vs prompt_template instr of
          (Inl e, w') \<Rightarrow>
            (Inr (GenerationFailure (str_error e) (u ''Failed to generate tailored content'')),
             s\<lparr>outside := w', trace := trace s @ [RetrievalQA prompt_template instr]\<rparr>)
        | (Inr (answer, sources), w') \<Rightarrow>
            (Inr (GenerationSuccess answer
                    (map (\<lambda>doc. take 200 (page_content doc)) sources) instr),
             s\<lparr>outside := w', trace := trace s @ [RetrievalQA prompt_template instr]\<rparr>))"
  by (simp add: generate_tailored_content_def generate_tailored_content_try_def
        generate_with_index_override call_retrieval_qa_def log_call_def
        split: prod.splits sum.splits)

lemma generate_tailored_content_ignores_override:
  "c1 \<noteq> [] \<Longrightarrow> c2 \<noteq> [] \<Longrightarrow>
     generate_tailored_content sv s instr uid (Some c1)
       = generate_tailored_content sv s instr uid (Some c2)"
proof -
  assume ne: "c1 \<noteq> []" "c2 \<noteq> []"
  have same: "generate_with_index sv s' instr (Some c1) = generate_with_index sv s' instr (Some c2)"
    for s' :: "('a, 'b) engine"
    using ne by (simp add: generate_with_index_def bind_context_def)
  show ?thesis
    by (simp only: generate_tailored_content_def generate_tailored_content_try_def same)
qed

lemma take_scenario_resume: "take 200 scenario_resume = scenario_resume"
  by (simp add: scenario_resume_def u_def)

lemma prompts_differ: "alignment_prompt r jd \<noteq> general_prompt r"
proof -
  have "alignment_prompt r jd ! 53 = 103"
    by (simp add: alignment_prompt_def u_def)
  moreover have "general_prompt r ! 53 = 110"
    by (simp add: general_prompt_def u_def)
  ultimately show ?thesis by auto
qed

lemma fallback_reply_lines:
  "split_lines (strip fallback_reply)
     = [u ''Sure.'', u ''Add numbers to every bullet'', u ''ok'']"
  by (simp add: fallback_reply_def strip_def lstrip_def rstrip_def isspace_def u_def)

lemma fallback_reply_not_list_like:
  "\<forall>line \<in> set (split_lines (strip fallback_reply)).
     \<not> list_like (\<lambda>c. 48 \<le> c \<and> c \<le> 57) (strip line)"
  unfolding fallback_reply_lines
  by (simp add: list_like_def startswith_def strip_def lstrip_def rstrip_def isspace_def u_def)

lemma fallback_reply_result:
  "take 5 (raw_fallback (split_lines (strip fallback_reply)))
     = [u ''Add numbers to every bullet'']"
  unfolding fallback_reply_lines
  by (simp add: raw_fallback_def strip_def lstrip_def rstrip_def isspace_def u_def)

lemma stub_isdigit: "isdigit (stub_services ok reply) = (\<lambda>c. 48 \<le> c \<and> c \<le> 57)"
  by (simp add: stub_services_def)

lemma stub_get_suggestions:
  "fst (get_suggestions (stub_services ok reply) s r jd)
     = Inr (parse_suggestions (\<lambda>c. 48 \<le> c \<and> c \<le> 57) reply)"
  by (simp add: get_suggestions_def get_suggestions_try_def call_generate_def
        stub_services_fields stub_isdigit)

lemma feedback_document_example:
  "feedback_document (u ''7'') (u ''emphasize Python'') (u ''Python developer'')
     (u ''Mention AWS'') 2
   = \<lparr>page_content =
                  u ''\<newline>INSTRUCTION: emphasize Python\<newline>GENERATED: Python developer\<newline>USER FEEDBACK: Mention AWS\<newline>RATING: 2/5\<newline>                '',
                metadata = [(u ''type'', JStr (u ''feedback'')),
                            (u ''user_id'', JStr (u ''7'')),
                            (u ''rating'', JInt 2)]\<rparr>"
  by (simp add: feedback_document_def str_int_def str_nat.simps u_def)

lemma get_suggestions_parsed:
  "\<exists>l s'. get_suggestions sv s r jd = (Inr l, s')
     \<and> length l \<le> 5
     \<and> (\<forall>x \<in> set l. 10 < length x)
     \<and> (\<forall>reply wx.
           gemini_generate sv (outside s) (suggestions_prompt r jd) = (Inr reply, wx)
           \<longrightarrow> l = take 5
                 (let raw_lines = split_lines (strip reply);
                      marked = filter (\<lambda>c. 10 < length c)
                                 (map clean_line
                                    (filter (list_like (isdigit sv)) (map strip raw_lines)))
                  in if marked = [] then raw_fallback raw_lines else marked))
     \<and> (\<forall>reply wx.
           gemini_generate sv (outside s) (suggestions_prompt r jd) = (Inr reply, wx)
           \<longrightarrow> (\<forall>line \<in> set (split_lines (strip reply)).
                  \<not> list_like (isdigit sv) (strip line))
           \<longrightarrow> l = take 5 (raw_fallback (split_lines (strip reply))))"
proof -
  obtain res w' where call: "gemini_generate sv (outside s) (suggestions_prompt r jd) = (res, w')"
    by (cases "gemini_generate sv (outside s) (suggestions_prompt r jd)")
  let ?s' = "s\<lparr>outside := w', trace := trace s @ [GenerateContent (suggestions_prompt r jd)]\<rparr>"
  show ?thesis
  proof (cases res)
    case (Inl e)
    let ?l = "[u ''Unable to generate suggestions: '' @ str_error e @
               u ''. Please check your GEMINI_API_KEY.'']"
    have "get_suggestions sv s r jd = (Inr ?l, ?s')"
      using call Inl
      by (simp add: get_suggestions_def get_suggestions_try_def call_generate_def log_call_def)
    moreover have "length ?l \<le> 5" by simp
    moreover have "\<forall>x \<in> set ?l. 10 < length x" by (simp add: u_def)
    moreover have "\<forall>reply wx.
           gemini_generate sv (outside s) (suggestions_prompt r jd) = (Inr reply, wx)
           \<longrightarrow> ?l = take 5
                 (let raw_lines = split_lines (strip reply);
                      marked = filter (\<lambda>c. 10 < length c)
                                 (map clean_line
                                    (filter (list_like (isdigit sv)) (map strip raw_lines)))
                  in if marked = [] then raw_fallback raw_lines else marked)"
      using call Inl by simp
    moreover have "\<forall>reply wx.
           gemini_generate sv (outside s) (suggestions_prompt r jd) = (Inr reply, wx)
           \<longrightarrow> (\<forall>line \<in> set (split_lines (strip reply)).
                  \<not> list_like (isdigit sv) (strip line))
           \<longrightarrow> ?l = take 5 (raw_fallback (split_lines (strip reply)))"
      using call Inl by simp
    ultimately show ?thesis by blast
  next
    case (Inr answer)
    let ?l = "parse_suggestions (isdigit sv) answer"
    have "get_suggestions sv s r jd = (Inr ?l, ?s')"
      using call Inr
      by (simp add: get_suggestions_def get_suggestions_try_def call_generate_def log_call_def)
    moreover have "length ?l \<le> 5" and "\<forall>x \<in> set ?l. 10 < length x"
      using parse_suggestions_bounds [of "isdigit sv" answer] by simp_all
    moreover have "\<forall>reply wx.
           gemini_generate sv (outside s) (suggestions_prompt r jd) = (Inr reply, wx)
           \<longrightarrow> ?l = take 5
                 (let raw_lines = split_lines (strip reply);
                      marked = filter (\<lambda>c. 10 < length c)
                                 (map clean_line
                                    (filter (list_like (isdigit sv)) (map strip raw_lines)))
                  in if marked = [] then raw_fallback raw_lines else marked)"
      using call Inr parse_suggestions_marked [of "isdigit sv" answer] by simp
    moreover have "\<forall>reply wx.
           gemini_generate sv (outside s) (suggestions_prompt r jd) = (Inr reply, wx)
           \<longrightarrow> (\<forall>line \<in> set (split_lines (strip reply)).
                  \<not> list_like (isdigit sv) (strip line))
           \<longrightarrow> ?l = take 5 (raw_fallback (split_lines (strip reply)))"
      using call Inr by (auto simp: parse_suggestions_fallback)
    ultimately show ?thesis by blast
  qed
qed

section \<open>Claims about the retrieval engine\<close>

text \<open>
  C10. \<open>ingest_documents\<close> assigns the newly built index to the engine before it saves
  it: when the chunks are split and embedded and the save then fails, the call reports
  failure (\<^verbatim>\<open>success\<close> false, with the error's text) and the engine holds the new
  index, whatever it held before.
\<close>

theorem ingest_replaces_index_before_saving:
  assumes "split_documents sv (documents_for r jd uid) = Inr chunks"
    and "from_documents sv (outside s) chunks = (Inr vs, w1)"
    and "save_local sv w1 vs (store_path_of uid) = (Some e, w2)"
  shows "fst (ingest_documents sv s r jd uid)
           = Inr (IngestFailure (str_error e)
                    (u ''Failed to ingest documents. Check GEMINI_API_KEY.''))
       \<and> vector_store (snd (ingest_documents sv s r jd uid)) = Some vs"
  using ingest_documents_save_fails [OF assms] by simp

theorem ingest_replaces_index_before_saving_witness:
  "fst (ingest_documents (stub_services False [])
          \<lparr>vector_store = Some [], outside = [], trace = []\<rparr>
          scenario_resume None (u ''7''))
     = Inr (IngestFailure (u ''No space left on device'')
              (u ''Failed to ingest documents. Check GEMINI_API_KEY.''))
   \<and> vector_store (snd (ingest_documents (stub_services False [])
          \<lparr>vector_store = Some [], outside = [], trace = []\<rparr>
          scenario_resume None (u ''7'')))
     = Some [resume_document scenario_resume (u ''7'')]"
  using ingest_replaces_index_before_saving
    [of "stub_services False []" scenario_resume None "u ''7''"
        "[resume_document scenario_resume (u ''7'')]"
        "\<lparr>vector_store = Some [], outside = [], trace = []\<rparr>"
        "[resume_document scenario_resume (u ''7'')]" "[]"
        "OSError (u ''No space left on device'')" "[]"]
  by (simp add: stub_services_fields documents_for_def)

text \<open>
  C9. With no index resident, \<open>retrieve_context\<close> raises and leaves the engine and
  everything outside it as they were: it neither looks for nor loads a saved index,
  whatever the disk holds. No call of \<open>retrieve_context\<close>, \<open>ingest_documents\<close>,
  \<open>learn_from_feedback\<close> or \<open>get_suggestions\<close> adds a load to the trace. Only
  \<open>generate_tailored_content\<close> falls back to the disk: with no index resident and a
  saved index at the user's path, its first two calls are the existence test and the
  load of that path.
\<close>

theorem retrieve_context_no_disk_fallback:
  "(vector_store s = None \<longrightarrow>
      retrieve_context sv s query k =
        (Inl (ValueError (u ''Vector store not initialized. Call ingest_documents first.'')), s))
   \<and> filter is_load (trace (snd (retrieve_context sv s query k))) = filter is_load (trace s)
   \<and> filter is_load (trace (snd (ingest_documents sv s r jd uid))) = filter is_load (trace s)
   \<and> filter is_load (trace (snd (learn_from_feedback sv s uid instr content fb rating)))
       = filter is_load (trace s)
   \<and> filter is_load (trace (snd (get_suggestions sv s r jd))) = filter is_load (trace s)
   \<and> (vector_store s = None \<longrightarrow> path_exists sv (outside s) (store_path_of uid) \<longrightarrow>
        take (length (trace s) + 2)
          (trace (snd (generate_tailored_content sv s instr uid override)))
        = trace s @ [PathExists (store_path_of uid), LoadLocal (store_path_of uid)])"
proof -
  have "filter is_load (trace (snd (retrieve_context sv s query k))) = filter is_load (trace s)"
    by (rule retrieve_context_loads [of sv s query k "fst (retrieve_context sv s query k)"]) simp
  moreover have "filter is_load (trace (snd (ingest_documents sv s r jd uid)))
                   = filter is_load (trace s)"
    by (rule ingest_documents_loads [of sv s r jd uid "fst (ingest_documents sv s r jd uid)"])
       simp
  moreover have "filter is_load (trace (snd (learn_from_feedback sv s uid instr content fb rating)))
                   = filter is_load (trace s)"
    by (rule learn_from_feedback_loads [of sv s uid instr content fb rating
          "fst (learn_from_feedback sv s uid instr content fb rating)"]) simp
  moreover have "filter is_load (trace (snd (get_suggestions sv s r jd)))
                   = filter is_load (trace s)"
    by (rule get_suggestions_loads [of sv s r jd "fst (get_suggestions sv s r jd)"]) simp
  moreover have "vector_store s = None \<longrightarrow>
      retrieve_context sv s query k =
        (Inl (ValueError (u ''Vector store not initialized. Call ingest_documents first.'')), s)"
    by (simp add: retrieve_context_def)
  moreover have "vector_store s = None \<longrightarrow> path_exists sv (outside s) (store_path_of uid) \<longrightarrow>
        take (length (trace s) + 2)
          (trace (snd (generate_tailored_content sv s instr uid override)))
        = trace s @ [PathExists (store_path_of uid), LoadLocal (store_path_of uid)]"
    using generate_tailored_content_loads_from_disk [of s sv uid instr override] by blast
  ultimately show ?thesis by blast
qed

theorem retrieve_context_no_disk_fallback_witness:
  "retrieve_context (stub_services True []) saved_index_only (u ''emphasize Python'') 5
     = (Inl (ValueError (u ''Vector store not initialized. Call ingest_documents first.'')),
        saved_index_only)
   \<and> take 2 (trace (snd (generate_tailored_content (stub_services True []) saved_index_only
                           (u ''emphasize Python'') (u ''7'') None)))
     = [PathExists (store_path_of (u ''7'')), LoadLocal (store_path_of (u ''7''))]"
proof -
  have none: "vector_store saved_index_only = None"
    by (simp add: saved_index_only_def)
  have on_disk: "path_exists (stub_services True []) (outside saved_index_only)
                   (store_path_of (u ''7''))"
    by (simp add: saved_index_only_def stub_services_fields)
  have start: "trace saved_index_only = []"
    by (simp add: saved_index_only_def)
  from retrieve_context_no_disk_fallback
         [where s = saved_index_only and sv = "stub_services True []"
            and query = "u ''emphasize Python''" and k = 5 and uid = "u ''7''"
            and instr = "u ''emphasize Python''" and override = None
            and r = scenario_resume and jd = None and content = "[]" and fb = "[]"
            and rating = 5]
       none on_disk start
  show ?thesis by (simp add: numeral_2_eq_2)
qed

text \<open>
  C1, at an input where the code departs from it. An index is resident and a non-empty
  \<open>context_override\<close> is supplied. The call binds the override to \<^verbatim>\<open>context\<close> and then
  runs the chain over the index with the instruction as its query: the one call made is
  the chain's, with the template and the instruction, and the answer is grounded in what
  the chain's retriever took from the index. The override reaches nothing: a different
  override gives the same result.
\<close>

theorem context_override_not_used:
  "generate_tailored_content (stub_services True []) resident_index
     (u ''emphasize Python'') (u ''7'') (Some (u ''ONLY THIS CONTEXT''))
   = (Inr (GenerationSuccess scenario_resume [scenario_resume] (u ''emphasize Python'')),
      resident_index\<lparr>trace := [RetrievalQA prompt_template (u ''emphasize Python'')]\<rparr>)
   \<and> generate_tailored_content (stub_services True []) resident_index
       (u ''emphasize Python'') (u ''7'') (Some (u ''SOMETHING ELSE''))
     = generate_tailored_content (stub_services True []) resident_index
         (u ''emphasize Python'') (u ''7'') (Some (u ''ONLY THIS CONTEXT''))"
proof -
  have a: "u ''ONLY THIS CONTEXT'' \<noteq> []" and b: "u ''SOMETHING ELSE'' \<noteq> []"
    by (simp_all add: u_def)
  have store: "vector_store resident_index = Some [resume_document scenario_resume (u ''7'')]"
    by (simp add: resident_index_def)
  have first: "generate_tailored_content (stub_services True []) resident_index
     (u ''emphasize Python'') (u ''7'') (Some (u ''ONLY THIS CONTEXT''))
   = (Inr (GenerationSuccess scenario_resume [scenario_resume] (u ''emphasize Python'')),
      resident_index\<lparr>trace := [RetrievalQA prompt_template (u ''emphasize Python'')]\<rparr>)"
    unfolding generate_tailored_content_override [OF a store]
    by (simp add: stub_services_fields resume_document_def take_scenario_resume
          resident_index_def)
  have second: "generate_tailored_content (stub_services True []) resident_index
       (u ''emphasize Python'') (u ''7'') (Some (u ''SOMETHING ELSE''))
     = generate_tailored_content (stub_services True []) resident_index
         (u ''emphasize Python'') (u ''7'') (Some (u ''ONLY THIS CONTEXT''))"
    by (rule generate_tailored_content_ignores_override [OF b a])
  from first second show ?thesis by (rule conjI)
qed

text \<open>
  C8. A call of \<open>interactive_refinement\<close> never raises and always makes both calls:
  \<open>learn_from_feedback\<close> returns a result, then \<open>generate_tailored_content\<close> is called in
  the state it left, without an override, with the previous instruction followed by
  the feedback text and the fixed directive, and both results are returned. With no
  index loaded the learning result is the not-initialized soft failure and the engine is
  unchanged. With an index loaded, what is split is the one packed feedback block: the
  instruction, the generated content, the feedback and the rating out of five under
  their labels, with the type, user and rating as metadata; its chunks are added to the
  live index, and the learning result says whether that raised.
\<close>

theorem interactive_refinement_attempts_both:
  "\<exists>lr gc s1 s2.
      learn_from_feedback sv s uid prev_instr prev_content fb rating = (Inr lr, s1)
    \<and> generate_tailored_content sv s1
         (prev_instr @ u ''\<newline>\<newline>User Feedback: '' @ fb @
          u ''\<newline>\<newline>Please improve based on this feedback.'') uid None = (Inr gc, s2)
    \<and> interactive_refinement sv s uid fb rating prev_instr prev_content
         = (Inr \<lparr>learning_status = lr, refined_content = gc, improvement_applied = True\<rparr>, s2)
    \<and> (vector_store s = None \<longrightarrow>
          lr = LearnNotStored (u ''Vector store not initialized'') \<and> s1 = s)
    \<and> (\<forall>vs chunks err vs' w'.
          vector_store s = Some vs
          \<longrightarrow> split_documents sv
                [\<lparr>page_content =
                   u ''\<newline>'' @
                   u ''INSTRUCTION: '' @ prev_instr @ u ''\<newline>'' @
                   u ''GENERATED: '' @ prev_content @ u ''\<newline>'' @
                   u ''USER FEEDBACK: '' @ fb @ u ''\<newline>'' @
                   u ''RATING: '' @ str_int rating @ u ''/5\<newline>'' @
                   u ''                '',
                 metadata = [(u ''type'', JStr (u ''feedback'')),
                             (u ''user_id'', JStr uid),
                             (u ''rating'', JInt rating)]\<rparr>]
                = Inr chunks
          \<longrightarrow> add_documents sv (outside s) vs chunks = ((err, vs'), w')
          \<longrightarrow> s1 = s\<lparr>vector_store := Some vs', outside := w',
                       trace := trace s @
                         [SplitDocuments
                            [\<lparr>page_content =
                   u ''\<newline>'' @
                   u ''INSTRUCTION: '' @ prev_instr @ u ''\<newline>'' @
                   u ''GENERATED: '' @ prev_content @ u ''\<newline>'' @
                   u ''USER FEEDBACK: '' @ fb @ u ''\<newline>'' @
                   u ''RATING: '' @ str_int rating @ u ''/5\<newline>'' @
                   u ''                '',
                 metadata = [(u ''type'', JStr (u ''feedback'')),
                             (u ''user_id'', JStr uid),
                             (u ''rating'', JInt rating)]\<rparr>],
                          AddDocuments chunks]\<rparr>
              \<and> lr = (case err of
                         None \<Rightarrow> LearnStored (u ''Feedback stored for continuous learning'')
                       | Some e \<Rightarrow> LearnError (str_error e)))"
proof -
  obtain lr s1 where
    learn: "learn_from_feedback sv s uid prev_instr prev_content fb rating = (Inr lr, s1)"
    using learn_from_feedback_returns by blast
  obtain gc s2 where
    gen: "generate_tailored_content sv s1 (refined_instruction prev_instr fb) uid None
            = (Inr gc, s2)"
    using generate_tailored_content_returns by blast
  note gen' = gen [unfolded refined_instruction_def]
  have run: "interactive_refinement sv s uid fb rating prev_instr prev_content
         = (Inr \<lparr>learning_status = lr, refined_content = gc, improvement_applied = True\<rparr>, s2)"
    using learn gen by (simp add: interactive_refinement_def)
  have none: "vector_store s = None \<longrightarrow>
          lr = LearnNotStored (u ''Vector store not initialized'') \<and> s1 = s"
    using learn learn_from_feedback_not_initialized [of s sv uid prev_instr prev_content fb rating]
    by auto
  have some: "\<forall>vs chunks err vs' w'.
          vector_store s = Some vs
          \<longrightarrow> split_documents sv [feedback_document uid prev_instr prev_content fb rating]
                = Inr chunks
          \<longrightarrow> add_documents sv (outside s) vs chunks = ((err, vs'), w')
          \<longrightarrow> s1 = s\<lparr>vector_store := Some vs', outside := w',
                       trace := trace s @
                         [SplitDocuments [feedback_document uid prev_instr prev_content fb rating],
                          AddDocuments chunks]\<rparr>
              \<and> lr = (case err of
                         None \<Rightarrow> LearnStored (u ''Feedback stored for continuous learning'')
                       | Some e \<Rightarrow> LearnError (str_error e))"
    using learn learn_from_feedback_with_index [of s _ sv uid prev_instr prev_content fb rating]
    by auto
  note some' = some [unfolded feedback_document_def]
  from learn gen' run none some'
  have "learn_from_feedback sv s uid prev_instr prev_content fb rating = (Inr lr, s1)
    \<and> generate_tailored_content sv s1
         (prev_instr @ u ''\<newline>\<newline>User Feedback: '' @ fb @
          u ''\<newline>\<newline>Please improve based on this feedback.'') uid None = (Inr gc, s2)
    \<and> interactive_refinement sv s uid fb rating prev_instr prev_content
         = (Inr \<lparr>learning_status = lr, refined_content = gc, improvement_applied = True\<rparr>, s2)
    \<and> (vector_store s = None \<longrightarrow>
          lr = LearnNotStored (u ''Vector store not initialized'') \<and> s1 = s)
    \<and> (\<forall>vs chunks err vs' w'.
          vector_store s = Some vs
          \<longrightarrow> split_documents sv
                [\<lparr>page_content =
                   u ''\<newline>'' @
                   u ''INSTRUCTION: '' @ prev_instr @ u ''\<newline>'' @
                   u ''GENERATED: '' @ prev_content @ u ''\<newline>'' @
                   u ''USER FEEDBACK: '' @ fb @ u ''\<newline>'' @
                   u ''RATING: '' @ str_int rating @ u ''/5\<newline>'' @
                   u ''                '',
                 metadata = [(u ''type'', JStr (u ''feedback'')),
                             (u ''user_id'', JStr uid),
                             (u ''rating'', JInt rating)]\<rparr>]
                = Inr chunks
          \<longrightarrow> add_documents sv (outside s) vs chunks = ((err, vs'), w')
          \<longrightarrow> s1 = s\<lparr>vector_store := Some vs', outside := w',
                       trace := trace s @
                         [SplitDocuments
                            [\<lparr>page_content =
                   u ''\<newline>'' @
                   u ''INSTRUCTION: '' @ prev_instr @ u ''\<newline>'' @
                   u ''GENERATED: '' @ prev_content @ u ''\<newline>'' @
                   u ''USER FEEDBACK: '' @ fb @ u ''\<newline>'' @
                   u ''RATING: '' @ str_int rating @ u ''/5\<newline>'' @
                   u ''                '',
                 metadata = [(u ''type'', JStr (u ''feedback'')),
                             (u ''user_id'', JStr uid),
                             (u ''rating'', JInt rating)]\<rparr>],
                          AddDocuments chunks]\<rparr>
              \<and> lr = (case err of
                         None \<Rightarrow> LearnStored (u ''Feedback stored for continuous learning'')
                       | Some e \<Rightarrow> LearnError (str_error e)))"
    by (intro conjI)
  then show ?thesis by (intro exI)
qed

theorem interactive_refinement_attempts_both_witness:
  "fst (interactive_refinement (stub_services True []) saved_index_only (u ''7'')
          (u ''Mention AWS'') 2 (u ''emphasize Python'') (u ''Python developer''))
     = Inr \<lparr>learning_status = LearnNotStored (u ''Vector store not initialized''),
            refined_content =
              GenerationSuccess scenario_resume [scenario_resume]
                (u ''emphasize Python\<newline>\<newline>User Feedback: Mention AWS\<newline>\<newline>Please improve based on this feedback.''),
            improvement_applied = True\<rparr>
   \<and> learn_from_feedback (stub_services True []) resident_index (u ''7'')
         (u ''emphasize Python'') (u ''Python developer'') (u ''Mention AWS'') 2
     = (Inr (LearnStored (u ''Feedback stored for continuous learning'')),
        resident_index
          \<lparr>vector_store :=
             Some [resume_document scenario_resume (u ''7''),
               \<lparr>page_content =
                  u ''\<newline>INSTRUCTION: emphasize Python\<newline>GENERATED: Python developer\<newline>USER FEEDBACK: Mention AWS\<newline>RATING: 2/5\<newline>                '',
                metadata = [(u ''type'', JStr (u ''feedback'')),
                            (u ''user_id'', JStr (u ''7'')),
                            (u ''rating'', JInt 2)]\<rparr>],
           outside := [],
           trace := [SplitDocuments
              [\<lparr>page_content =
                  u ''\<newline>INSTRUCTION: emphasize Python\<newline>GENERATED: Python developer\<newline>USER FEEDBACK: Mention AWS\<newline>RATING: 2/5\<newline>                '',
                metadata = [(u ''type'', JStr (u ''feedback'')),
                            (u ''user_id'', JStr (u ''7'')),
                            (u ''rating'', JInt 2)]\<rparr>],
                     AddDocuments
              [\<lparr>page_content =
                  u ''\<newline>INSTRUCTION: emphasize Python\<newline>GENERATED: Python developer\<newline>USER FEEDBACK: Mention AWS\<newline>RATING: 2/5\<newline>                '',
                metadata = [(u ''type'', JStr (u ''feedback'')),
                            (u ''user_id'', JStr (u ''7'')),
                            (u ''rating'', JInt 2)]\<rparr>]]\<rparr>)"
proof -
  let ?S = "stub_services True [] ::
              (document list, (pystr \<times> document list) list) services"
  let ?q = "u ''emphasize Python'' @ u ''\<newline>\<newline>User Feedback: '' @ u ''Mention AWS'' @
            u ''\<newline>\<newline>Please improve based on this feedback.''"
  let ?fd = "\<lparr>page_content =
                  u ''\<newline>INSTRUCTION: emphasize Python\<newline>GENERATED: Python developer\<newline>USER FEEDBACK: Mention AWS\<newline>RATING: 2/5\<newline>                '',
                metadata = [(u ''type'', JStr (u ''feedback'')),
                            (u ''user_id'', JStr (u ''7'')),
                            (u ''rating'', JInt 2)]\<rparr>"
  have q: "?q = u ''emphasize Python\<newline>\<newline>User Feedback: Mention AWS\<newline>\<newline>Please improve based on this feedback.''"
    by (simp add: u_append)
  obtain lr gc s1 s2 where all:
    "learn_from_feedback ?S saved_index_only (u ''7'') (u ''emphasize Python'')
        (u ''Python developer'') (u ''Mention AWS'') 2 = (Inr lr, s1)
     \<and> generate_tailored_content ?S s1 ?q (u ''7'') None = (Inr gc, s2)
     \<and> interactive_refinement ?S saved_index_only (u ''7'') (u ''Mention AWS'') 2
            (u ''emphasize Python'') (u ''Python developer'')
          = (Inr \<lparr>learning_status = lr, refined_content = gc,
                   improvement_applied = True\<rparr>, s2)
     \<and> (vector_store saved_index_only = None \<longrightarrow>
             lr = LearnNotStored (u ''Vector store not initialized'') \<and> s1 = saved_index_only)"
    using interactive_refinement_attempts_both
            [of ?S saved_index_only "u ''7''" "u ''emphasize Python''" "u ''Python developer''"
                "u ''Mention AWS''" 2]
    by (elim exE conjE) (rule that, intro conjI)
  from all have
    gen: "generate_tailored_content ?S s1 ?q (u ''7'') None = (Inr gc, s2)" and
    run: "interactive_refinement ?S saved_index_only (u ''7'') (u ''Mention AWS'') 2
            (u ''emphasize Python'') (u ''Python developer'')
          = (Inr \<lparr>learning_status = lr, refined_content = gc,
                   improvement_applied = True\<rparr>, s2)" and
    none: "vector_store saved_index_only = None \<longrightarrow>
             lr = LearnNotStored (u ''Vector store not initialized'') \<and> s1 = saved_index_only"
    by simp_all
  have lr: "lr = LearnNotStored (u ''Vector store not initialized'')"
    and s1: "s1 = saved_index_only"
    using none by (simp_all add: saved_index_only_def)
  have "fst (generate_tailored_content ?S saved_index_only ?q (u ''7'') None)
          = Inr (GenerationSuccess scenario_resume [scenario_resume] ?q)"
    by (simp add: generate_tailored_content_def generate_tailored_content_try_def
          generate_with_index_def bind_context_def retrieve_context_def
          call_path_exists_def call_load_local_def call_similarity_search_def
          call_retrieval_qa_def log_call_def stub_services_fields saved_index_only_def
          Let_def resume_document_def take_scenario_resume)
  with gen s1 have gc: "gc = GenerationSuccess scenario_resume [scenario_resume] ?q"
    by simp
  have first: "fst (interactive_refinement ?S saved_index_only (u ''7'') (u ''Mention AWS'') 2
            (u ''emphasize Python'') (u ''Python developer''))
     = Inr \<lparr>learning_status = LearnNotStored (u ''Vector store not initialized''),
            refined_content = GenerationSuccess scenario_resume [scenario_resume]
              (u ''emphasize Python\<newline>\<newline>User Feedback: Mention AWS\<newline>\<newline>Please improve based on this feedback.''),
            improvement_applied = True\<rparr>"
    using run lr gc unfolding q by simp
  have second: "learn_from_feedback ?S resident_index (u ''7'')
         (u ''emphasize Python'') (u ''Python developer'') (u ''Mention AWS'') 2
     = (Inr (LearnStored (u ''Feedback stored for continuous learning'')),
        resident_index
          \<lparr>vector_store := Some [resume_document scenario_resume (u ''7''), ?fd],
           outside := [],
           trace := [SplitDocuments [?fd], AddDocuments [?fd]]\<rparr>)"
    using learn_from_feedback_with_index
            [of resident_index "[resume_document scenario_resume (u ''7'')]" ?S
                "u ''7''" "u ''emphasize Python''" "u ''Python developer''" "u ''Mention AWS''" 2
                "[?fd]" None "[resume_document scenario_resume (u ''7''), ?fd]" "[]"]
    by (simp add: stub_services_fields resident_index_def feedback_document_example)
  from first second show ?thesis by (rule conjI)
qed

text \<open>
  C4, as the code has it. The threshold is on the job description. A job description
  whose trimmed length is at most 50 is treated as absent: the job document is left out
  of what is ingested, ingestion behaves exactly as with no job description, and when
  splitting, embedding and saving succeed it succeeds with \<^verbatim>\<open>has_job_description\<close>
  false; the suggestion prompt is the general one, which does not depend on the job
  description, and \<open>get_suggestions\<close> behaves as with none. A trimmed length above 50
  (so 51) is treated as present by both: the job document is ingested, a successful
  ingestion reports \<^verbatim>\<open>has_job_description\<close> true, and the suggestion prompt is the
  job-alignment one, which differs from the general one. Feedback text meets no
  threshold: with an index loaded, \<open>learn_from_feedback\<close> packs feedback of any length
  and adds it to the index.
\<close>

theorem job_description_threshold:
  "(length (strip jd) \<le> 50 \<longrightarrow>
       documents_for r (Some jd) uid = [resume_document r uid]
     \<and> ingest_documents sv s r (Some jd) uid = ingest_documents sv s r None uid
     \<and> (split_documents sv [resume_document r uid] = Inr chunks
          \<longrightarrow> from_documents sv (outside s) chunks = (Inr vs, wa)
          \<longrightarrow> save_local sv wa vs (store_path_of uid) = (None, wb)
          \<longrightarrow> fst (ingest_documents sv s r (Some jd) uid)
                = Inr (IngestSuccess (length chunks) False (store_path_of uid)
                         (ingest_message False)))
     \<and> suggestions_prompt r (Some jd) = general_prompt r
     \<and> get_suggestions sv s r (Some jd) = get_suggestions sv s r None)
   \<and> (50 < length (strip jd) \<longrightarrow>
       documents_for r (Some jd) uid = [resume_document r uid, jd_document jd uid]
     \<and> (split_documents sv [resume_document r uid, jd_document jd uid] = Inr chunks
          \<longrightarrow> from_documents sv (outside s) chunks = (Inr vs, wa)
          \<longrightarrow> save_local sv wa vs (store_path_of uid) = (None, wb)
          \<longrightarrow> fst (ingest_documents sv s r (Some jd) uid)
                = Inr (IngestSuccess (length chunks) True (store_path_of uid)
                         (ingest_message True)))
     \<and> suggestions_prompt r (Some jd) = alignment_prompt r jd
     \<and> alignment_prompt r jd \<noteq> general_prompt r)
   \<and> (vector_store s = Some index
        \<longrightarrow> split_documents sv [feedback_document uid instr content fb rating] = Inr packed
        \<longrightarrow> add_documents sv (outside s) index packed = ((None, index'), wc)
        \<longrightarrow> learn_from_feedback sv s uid instr content fb rating
              = (Inr (LearnStored (u ''Feedback stored for continuous learning'')),
                 s\<lparr>vector_store := Some index', outside := wc,
                   trace := trace s @
                     [SplitDocuments [feedback_document uid instr content fb rating],
                      AddDocuments packed]\<rparr>))"
proof (intro conjI impI)
  assume short: "length (strip jd) \<le> 50"
  then have no: "\<not> has_specific_jd (Some jd)" by (rule short_jd_not_specific)
  from no show docs: "documents_for r (Some jd) uid = [resume_document r uid]"
    by (simp add: documents_for_def)
  from no show "ingest_documents sv s r (Some jd) uid = ingest_documents sv s r None uid"
    by (rule ingest_documents_short_jd)
  from no show "suggestions_prompt r (Some jd) = general_prompt r"
    by (simp add: suggestions_prompt_def)
  from no show "get_suggestions sv s r (Some jd) = get_suggestions sv s r None"
    by (rule get_suggestions_short_jd)
  assume "split_documents sv [resume_document r uid] = Inr chunks"
    and "from_documents sv (outside s) chunks = (Inr vs, wa)"
    and "save_local sv wa vs (store_path_of uid) = (None, wb)"
  with docs no show "fst (ingest_documents sv s r (Some jd) uid)
                = Inr (IngestSuccess (length chunks) False (store_path_of uid)
                         (ingest_message False))"
    by (simp add: ingest_documents_success)
next
  assume long: "50 < length (strip jd)"
  then have yes: "has_specific_jd (Some jd)" by (rule long_jd_specific)
  from yes show docs: "documents_for r (Some jd) uid
                         = [resume_document r uid, jd_document jd uid]"
    by (simp add: documents_for_def)
  from yes show "suggestions_prompt r (Some jd) = alignment_prompt r jd"
    by (simp add: suggestions_prompt_def)
  show "alignment_prompt r jd \<noteq> general_prompt r"
    by (rule prompts_differ)
  assume "split_documents sv [resume_document r uid, jd_document jd uid] = Inr chunks"
    and "from_documents sv (outside s) chunks = (Inr vs, wa)"
    and "save_local sv wa vs (store_path_of uid) = (None, wb)"
  with docs yes show "fst (ingest_documents sv s r (Some jd) uid)
                = Inr (IngestSuccess (length chunks) True (store_path_of uid)
                         (ingest_message True))"
    by (simp add: ingest_documents_success)
next
  assume "vector_store s = Some index"
    and "split_documents sv [feedback_document uid instr content fb rating] = Inr packed"
    and "add_documents sv (outside s) index packed = ((None, index'), wc)"
  from learn_from_feedback_with_index [OF this]
  show "learn_from_feedback sv s uid instr content fb rating
              = (Inr (LearnStored (u ''Feedback stored for continuous learning'')),
                 s\<lparr>vector_store := Some index', outside := wc,
                   trace := trace s @
                     [SplitDocuments [feedback_document uid instr content fb rating],
                      AddDocuments packed]\<rparr>)"
    by simp
qed

theorem job_description_threshold_witness:
  "documents_for scenario_resume (Some jd50) (u ''7'')
     = [resume_document scenario_resume (u ''7'')]
   \<and> fst (ingest_documents (stub_services True []) saved_index_only
            scenario_resume (Some jd50) (u ''7''))
     = Inr (IngestSuccess 1 False (store_path_of (u ''7'')) (ingest_message False))
   \<and> suggestions_prompt scenario_resume (Some jd50) = general_prompt scenario_resume
   \<and> documents_for scenario_resume (Some jd51) (u ''7'')
     = [resume_document scenario_resume (u ''7''), jd_document jd51 (u ''7'')]
   \<and> fst (ingest_documents (stub_services True []) saved_index_only
            scenario_resume (Some jd51) (u ''7''))
     = Inr (IngestSuccess 2 True (store_path_of (u ''7'')) (ingest_message True))
   \<and> suggestions_prompt scenario_resume (Some jd51)
     = alignment_prompt scenario_resume jd51
   \<and> fst (learn_from_feedback (stub_services True []) resident_index (u ''7'')
            (u ''emphasize Python'') (u ''Python developer'') (u ''Too long'') 3)
     = Inr (LearnStored (u ''Feedback stored for continuous learning''))"
proof -
  let ?S = "stub_services True [] ::
              (document list, (pystr \<times> document list) list) services"
  let ?resume = "resume_document scenario_resume (u ''7'')"
  have at50: "length (strip jd50) \<le> 50" by (simp add: jd50_length)
  have at51: "50 < length (strip jd51)" by (simp add: jd51_length)
  have split50: "split_documents ?S [?resume] = Inr [?resume]"
    and split51: "split_documents ?S [?resume, jd_document jd51 (u ''7'')]
                    = Inr [?resume, jd_document jd51 (u ''7'')]"
    and embed50: "from_documents ?S (outside saved_index_only) [?resume]
                    = (Inr [?resume], outside saved_index_only)"
    and embed51: "from_documents ?S (outside saved_index_only)
                    [?resume, jd_document jd51 (u ''7'')]
                    = (Inr [?resume, jd_document jd51 (u ''7'')], outside saved_index_only)"
    and save50: "save_local ?S (outside saved_index_only) [?resume] (store_path_of (u ''7''))
                    = (None, (store_path_of (u ''7''), [?resume]) # outside saved_index_only)"
    and save51: "save_local ?S (outside saved_index_only)
                    [?resume, jd_document jd51 (u ''7'')] (store_path_of (u ''7''))
                    = (None, (store_path_of (u ''7''), [?resume, jd_document jd51 (u ''7'')])
                             # outside saved_index_only)"
    by (simp_all add: stub_services_fields)
  from job_description_threshold
         [where jd = jd50 and r = scenario_resume and uid = "u ''7''" and sv = ?S
            and s = saved_index_only and chunks = "[?resume]" and vs = "[?resume]"
            and wa = "outside saved_index_only"
            and wb = "(store_path_of (u ''7''), [?resume]) # outside saved_index_only"]
       at50 split50 embed50 save50
  have low: "documents_for scenario_resume (Some jd50) (u ''7'') = [?resume]
     \<and> fst (ingest_documents ?S saved_index_only scenario_resume (Some jd50) (u ''7''))
         = Inr (IngestSuccess (length [?resume]) False (store_path_of (u ''7''))
                  (ingest_message False))
     \<and> suggestions_prompt scenario_resume (Some jd50) = general_prompt scenario_resume"
    by blast
  from job_description_threshold
         [where jd = jd51 and r = scenario_resume and uid = "u ''7''" and sv = ?S
            and s = saved_index_only and chunks = "[?resume, jd_document jd51 (u ''7'')]"
            and vs = "[?resume, jd_document jd51 (u ''7'')]"
            and wa = "outside saved_index_only"
            and wb = "(store_path_of (u ''7''), [?resume, jd_document jd51 (u ''7'')])
                      # outside saved_index_only"]
       at51 split51 embed51 save51
  have high: "documents_for scenario_resume (Some jd51) (u ''7'')
         = [?resume, jd_document jd51 (u ''7'')]
     \<and> fst (ingest_documents ?S saved_index_only scenario_resume (Some jd51) (u ''7''))
         = Inr (IngestSuccess (length [?resume, jd_document jd51 (u ''7'')]) True
                  (store_path_of (u ''7'')) (ingest_message True))
     \<and> suggestions_prompt scenario_resume (Some jd51)
         = alignment_prompt scenario_resume jd51"
    by blast
  let ?fd = "feedback_document (u ''7'') (u ''emphasize Python'') (u ''Python developer'')
               (u ''Too long'') 3"
  have loaded: "vector_store resident_index = Some [?resume]"
    and packed: "split_documents ?S [?fd] = Inr [?fd]"
    and added: "add_documents ?S (outside resident_index) [?resume] [?fd]
                  = ((None, [?resume, ?fd]), outside resident_index)"
    by (simp_all add: stub_services_fields resident_index_def)
  from job_description_threshold
         [where sv = ?S and s = resident_index and uid = "u ''7''"
            and instr = "u ''emphasize Python''" and content = "u ''Python developer''"
            and fb = "u ''Too long''" and rating = 3 and index = "[?resume]"
            and packed = "[?fd]" and index' = "[?resume, ?fd]"
            and wc = "outside resident_index"]
       loaded packed added
  have stored: "fst (learn_from_feedback ?S resident_index (u ''7'')
            (u ''emphasize Python'') (u ''Python developer'') (u ''Too long'') 3)
     = Inr (LearnStored (u ''Feedback stored for continuous learning''))"
    by simp
  from low high stored show ?thesis by simp
qed

text \<open>
  C4, as stated, fails for feedback text: a feedback of two characters is packed and
  added to the loaded index like any other.
\<close>

theorem short_feedback_counterexample:
  "length (strip (u ''ok'')) = 2
   \<and> learn_from_feedback (stub_services True []) resident_index (u ''7'')
         (u ''emphasize Python'') (u ''Python developer'') (u ''ok'') 5
     = (Inr (LearnStored (u ''Feedback stored for continuous learning'')),
        resident_index
          \<lparr>vector_store :=
             Some [resume_document scenario_resume (u ''7''),
                   feedback_document (u ''7'') (u ''emphasize Python'')
                     (u ''Python developer'') (u ''ok'') 5],
           outside := [],
           trace := [SplitDocuments [feedback_document (u ''7'') (u ''emphasize Python'')
                                       (u ''Python developer'') (u ''ok'') 5],
                     AddDocuments [feedback_document (u ''7'') (u ''emphasize Python'')
                                     (u ''Python developer'') (u ''ok'') 5]]\<rparr>)"
proof -
  have "length (strip (u ''ok'')) = 2"
    by (simp add: strip_def lstrip_def rstrip_def isspace_def u_def)
  moreover have "learn_from_feedback (stub_services True []) resident_index (u ''7'')
         (u ''emphasize Python'') (u ''Python developer'') (u ''ok'') 5
     = (Inr (LearnStored (u ''Feedback stored for continuous learning'')),
        resident_index
          \<lparr>vector_store :=
             Some [resume_document scenario_resume (u ''7''),
                   feedback_document (u ''7'') (u ''emphasize Python'')
                     (u ''Python developer'') (u ''ok'') 5],
           outside := [],
           trace := [SplitDocuments [feedback_document (u ''7'') (u ''emphasize Python'')
                                       (u ''Python developer'') (u ''ok'') 5],
                     AddDocuments [feedback_document (u ''7'') (u ''emphasize Python'')
                                     (u ''Python developer'') (u ''ok'') 5]]\<rparr>)"
    by (simp add: learn_from_feedback_def learn_from_feedback_try_def call_split_def
          call_add_documents_def log_call_def stub_services_fields resident_index_def
          Let_def)
  ultimately show ?thesis by (rule conjI)
qed

text \<open>
  C7, as the code has it. \<open>get_suggestions\<close> never raises: whatever the model does, it
  returns a list. The list has at most five entries and every entry, as returned, is
  longer than ten characters. When the model answers, the entries are the first five of
  the list-like lines after marker stripping and trimming that are longer than ten
  characters; when there is none (in particular when no trimmed line of the answer
  looks list-like) the result is the fallback: the first five of the trimmed lines that
  are longer than ten characters, returned as they are, markers included.
\<close>

theorem get_suggestions_bounded:
  "\<exists>l s'. get_suggestions sv s r jd = (Inr l, s')
     \<and> length l \<le> 5
     \<and> (\<forall>x \<in> set l. 10 < length x)
     \<and> (\<forall>reply wx.
           gemini_generate sv (outside s) (suggestions_prompt r jd) = (Inr reply, wx)
           \<longrightarrow> l = take 5
                 (let raw_lines = split_lines (strip reply);
                      marked = filter (\<lambda>c. 10 < length c)
                                 (map (\<lambda>line. strip (lstrip_chars
                                          (u ''0123456789.-'' @ [8226] @ u '') '') line))
                                    (filter (\<lambda>line. line \<noteq> [] \<and>
                                               (isdigit sv (hd line) \<or> startswith line (u ''-'')
                                                \<or> startswith line [8226]))
                                       (map strip raw_lines)))
                  in if marked = []
                     then map strip
                            (filter (\<lambda>s. strip s \<noteq> [] \<and> 10 < length (strip s)) raw_lines)
                     else marked))
     \<and> (\<forall>reply wx.
           gemini_generate sv (outside s) (suggestions_prompt r jd) = (Inr reply, wx)
           \<longrightarrow> (\<forall>line \<in> set (split_lines (strip reply)).
                  \<not> (strip line \<noteq> [] \<and>
                     (isdigit sv (hd (strip line)) \<or> startswith (strip line) (u ''-'')
                      \<or> startswith (strip line) [8226])))
           \<longrightarrow> l = take 5
                 (map strip
                    (filter (\<lambda>s. strip s \<noteq> [] \<and> 10 < length (strip s))
                       (split_lines (strip reply)))))"
  by (rule get_suggestions_parsed
        [unfolded list_like_def [abs_def] clean_line_def [abs_def] raw_fallback_def
                  MARKERS_def])

theorem get_suggestions_bounded_witness:
  "fst (get_suggestions (stub_services True numbered_reply) resident_index
          scenario_resume None)
     = Inr [u ''Quantify - state the size of the data sets'',
            u ''Highlight the Python projects first'',
            u ''Reframe the summary for ML roles'',
            u ''Include the GitHub profile link'',
            u ''Add - list the cloud certifications'']
   \<and> fst (get_suggestions (stub_services True fallback_reply) resident_index
            scenario_resume None)
     = Inr [u ''Add numbers to every bullet'']"
proof -
  let ?N = "stub_services True numbered_reply ::
              (document list, (pystr \<times> document list) list) services"
  let ?F = "stub_services True fallback_reply ::
              (document list, (pystr \<times> document list) list) services"
  obtain l s' where run: "get_suggestions ?N resident_index scenario_resume None = (Inr l, s')"
    and parsed: "\<forall>reply wx.
           gemini_generate ?N (outside resident_index) (suggestions_prompt scenario_resume None)
             = (Inr reply, wx)
           \<longrightarrow> l = take 5
                 (let raw_lines = split_lines (strip reply);
                      marked = filter (\<lambda>c. 10 < length c)
                                 (map (\<lambda>line. strip (lstrip_chars
                                          (u ''0123456789.-'' @ [8226] @ u '') '') line))
                                    (filter (\<lambda>line. line \<noteq> [] \<and>
                                               (isdigit ?N (hd line) \<or> startswith line (u ''-'')
                                                \<or> startswith line [8226]))
                                       (map strip raw_lines)))
                  in if marked = []
                     then map strip
                            (filter (\<lambda>s. strip s \<noteq> [] \<and> 10 < length (strip s)) raw_lines)
                     else marked)"
    using get_suggestions_bounded [of ?N resident_index scenario_resume None]
    by (elim exE conjE) (rule that)
  have "gemini_generate ?N (outside resident_index) (suggestions_prompt scenario_resume None)
          = (Inr numbered_reply, outside resident_index)"
    by (simp add: stub_services_fields)
  with parsed have "l = take 5
                 (let raw_lines = split_lines (strip numbered_reply);
                      marked = filter (\<lambda>c. 10 < length c)
                                 (map (\<lambda>line. strip (lstrip_chars
                                          (u ''0123456789.-'' @ [8226] @ u '') '') line))
                                    (filter (\<lambda>line. line \<noteq> [] \<and>
                                               (isdigit ?N (hd line) \<or> startswith line (u ''-'')
                                                \<or> startswith line [8226]))
                                       (map strip raw_lines)))
                  in if marked = []
                     then map strip
                            (filter (\<lambda>s. strip s \<noteq> [] \<and> 10 < length (strip s)) raw_lines)
                     else marked)"
    by blast
  then have "l = [u ''Quantify - state the size of the data sets'',
            u ''Highlight the Python projects first'',
            u ''Reframe the summary for ML roles'',
            u ''Include the GitHub profile link'',
            u ''Add - list the cloud certifications'']"
    by (simp add: stub_isdigit numbered_reply_def Let_def lstrip_chars_def startswith_def
          strip_def lstrip_def rstrip_def isspace_def u_def)
  with run have first: "fst (get_suggestions ?N resident_index scenario_resume None)
     = Inr [u ''Quantify - state the size of the data sets'',
            u ''Highlight the Python projects first'',
            u ''Reframe the summary for ML roles'',
            u ''Include the GitHub profile link'',
            u ''Add - list the cloud certifications'']"
    by simp
  obtain k t' where run2: "get_suggestions ?F resident_index scenario_resume None = (Inr k, t')"
    and fallback: "\<forall>reply wx.
           gemini_generate ?F (outside resident_index) (suggestions_prompt scenario_resume None)
             = (Inr reply, wx)
           \<longrightarrow> (\<forall>line \<in> set (split_lines (strip reply)).
                  \<not> (strip line \<noteq> [] \<and>
                     (isdigit ?F (hd (strip line)) \<or> startswith (strip line) (u ''-'')
                      \<or> startswith (strip line) [8226])))
           \<longrightarrow> k = take 5
                 (map strip
                    (filter (\<lambda>s. strip s \<noteq> [] \<and> 10 < length (strip s))
                       (split_lines (strip reply))))"
    using get_suggestions_bounded [of ?F resident_index scenario_resume None]
    by (elim exE conjE) (rule that)
  have answered: "gemini_generate ?F (outside resident_index)
                    (suggestions_prompt scenario_resume None)
                  = (Inr fallback_reply, outside resident_index)"
    by (simp add: stub_services_fields)
  have plain: "\<forall>line \<in> set (split_lines (strip fallback_reply)).
                  \<not> (strip line \<noteq> [] \<and>
                     (isdigit ?F (hd (strip line)) \<or> startswith (strip line) (u ''-'')
                      \<or> startswith (strip line) [8226]))"
    using fallback_reply_not_list_like
    by (simp add: list_like_def stub_isdigit)
  from fallback answered plain
  have "k = take 5 (map strip
                    (filter (\<lambda>s. strip s \<noteq> [] \<and> 10 < length (strip s))
                       (split_lines (strip fallback_reply))))"
    by blast
  then have "k = [u ''Add numbers to every bullet'']"
    using fallback_reply_result by (simp add: raw_fallback_def)
  with run2 have second: "fst (get_suggestions ?F resident_index scenario_resume None)
                   = Inr [u ''Add numbers to every bullet'']"
    by simp
  from first second show ?thesis by (rule conjI)
qed

text \<open>
  C7, as stated, fails. When every marked line is too short once stripped, the fallback
  returns the trimmed raw lines: the second line comes back with its marker, and with
  the marker stripped it has nine characters.
\<close>

theorem marked_fallback_counterexample:
  "fst (get_suggestions (stub_services True marked_short_reply) resident_index
          scenario_resume None)
     = Inr [u ''2. tiny tiny'', u ''This is a plain long line'']
   \<and> list_like (\<lambda>c. 48 \<le> c \<and> c \<le> 57) (u ''2. tiny tiny'')
   \<and> clean_line (u ''2. tiny tiny'') = u ''tiny tiny''
   \<and> length (clean_line (u ''2. tiny tiny'')) = 9"
proof -
  have "parse_suggestions (\<lambda>c. 48 \<le> c \<and> c \<le> 57) marked_short_reply
          = [u ''2. tiny tiny'', u ''This is a plain long line'']"
    by (simp add: parse_suggestions_def marked_short_reply_def Let_def list_like_def
          clean_line_def lstrip_chars_def MARKERS_def startswith_def raw_fallback_def
          strip_def lstrip_def rstrip_def isspace_def u_def)
  then have run: "fst (get_suggestions (stub_services True marked_short_reply) resident_index
          scenario_resume None)
     = Inr [u ''2. tiny tiny'', u ''This is a plain long line'']"
    by (simp only: stub_get_suggestions)
  have marked: "list_like (\<lambda>c. 48 \<le> c \<and> c \<le> 57) (u ''2. tiny tiny'')"
    by (simp add: list_like_def u_def)
  have stripped: "clean_line (u ''2. tiny tiny'') = u ''tiny tiny''"
    by (simp add: clean_line_def lstrip_chars_def MARKERS_def strip_def lstrip_def
          rstrip_def isspace_def u_def)
  have "length (clean_line (u ''2. tiny tiny'')) = 9"
    unfolding stripped by (simp add: u_def)
  with run marked stripped show ?thesis by (intro conjI)
qed

end
